theory Spec2Isabelle
  imports Complex_Main "HOL-Library.Log_Nat"
begin

section \<open>Python values, exceptions and the external libraries\<close>

text \<open>
  The three scripts (\<^verbatim>\<open>src/main.py\<close>, \<^verbatim>\<open>src/model_analyzer.py\<close>,
  \<^verbatim>\<open>rec/plot_model_analysis.py\<close>) pass around values parsed from YAML and JSON and
  dictionaries built from literals. They are modelled by one datatype of Python values.
  A dictionary is an association list in insertion order, with string keys. A finite
  Python float is the rational number it denotes. In the analyzers the arithmetic on
  thop's counts (\<^verbatim>\<open>macs * 2\<close>, \<^verbatim>\<open>flops / 1E9\<close>, \<^verbatim>\<open>macs / 1E9\<close>) is taken exactly,
  where Python rounds the quotients to the nearest double; in the renderer, whose
  annotations depend on the last bit, every division and conversion rounds as Python's
  does.
\<close>

datatype pyval =
    PNone
  | PBool bool
  | PInt int
  | PFloat rat
  | PStr string
  | PList "pyval list"
  | PDict "(string \<times> pyval) list"

type_synonym pydict = "(string \<times> pyval) list"

text \<open>
  Exceptions of class \<^verbatim>\<open>Exception\<close>, the class that the \<^verbatim>\<open>except\<close> clauses of both
  analyzers name. \<open>str_exn\<close> is Python's \<^verbatim>\<open>str(e)\<close>: the message, for a
  \<^verbatim>\<open>KeyError\<close> the key between quotes, for a \<^verbatim>\<open>FileNotFoundError\<close> the error
  number, its text and the file name.
\<close>

datatype exn =
    KeyError string
  | TypeError string
  | AttributeError string
  | ValueError string
  | RuntimeError string
  | OSError string
  | FileNotFoundError string
  | OverflowError string

fun str_exn :: "exn \<Rightarrow> string" where
  "str_exn (KeyError k) = [CHR 0x27] @ k @ [CHR 0x27]"
| "str_exn (TypeError m) = m"
| "str_exn (AttributeError m) = m"
| "str_exn (ValueError m) = m"
| "str_exn (RuntimeError m) = m"
| "str_exn (OSError m) = m"
| "str_exn (FileNotFoundError f) =
     ''[Errno 2] No such file or directory: '' @ [CHR 0x27] @ f @ [CHR 0x27]"
| "str_exn (OverflowError m) = m"

text \<open>Sequencing of calls that may raise: the first exception ends the block.\<close>

definition and_then :: "exn + 'a \<Rightarrow> ('a \<Rightarrow> exn + 'b) \<Rightarrow> exn + 'b" where
  "and_then r f = (case r of Inl e \<Rightarrow> Inl e | Inr x \<Rightarrow> f x)"

section \<open>The json module\<close>

text \<open>
  Modelled from the documentation of Python's \<^verbatim>\<open>json\<close> module, which is not part of
  the repository. A \<open>json\<close> value is a JSON document as its grammar reads it: the members
  of an object in the order of the text, and a number either an integer literal or a
  literal with a fraction or an exponent. \<open>JReal\<close> holds the float that the literal
  denotes: \<^verbatim>\<open>json.dump\<close> writes a float by \<^verbatim>\<open>float.__repr__\<close> and
  \<^verbatim>\<open>json.load\<close> reads a literal by \<^verbatim>\<open>float\<close>, and \<^verbatim>\<open>float(repr(x)) == x\<close>.
  White space, and so \<^verbatim>\<open>indent=2\<close>, is not part of the document.

  \<open>json_dump\<close> is the encoder's conversion table (dict to object, list to array, str to
  string, int and float to number, \<^verbatim>\<open>True\<close>, \<^verbatim>\<open>False\<close>, \<^verbatim>\<open>None\<close> to \<^verbatim>\<open>true\<close>,
  \<^verbatim>\<open>false\<close>, \<^verbatim>\<open>null\<close>), \<open>json_load_document\<close> the decoder's. The decoder builds a
  dictionary by assigning the members in order, so that of a repeated name the last
  value is kept, at the place of the first.
\<close>

datatype json =
    JNull
  | JBool bool
  | JInt int
  | JReal rat
  | JString string
  | JArray "json list"
  | JObject "(string \<times> json) list"

primrec json_dump :: "pyval \<Rightarrow> json" where
  "json_dump PNone = JNull"
| "json_dump (PBool b) = JBool b"
| "json_dump (PInt i) = JInt i"
| "json_dump (PFloat q) = JReal q"
| "json_dump (PStr s) = JString s"
| "json_dump (PList xs) = JArray (map json_dump xs)"
| "json_dump (PDict kvs) = JObject (map (map_prod id json_dump) kvs)"

text \<open>\<^verbatim>\<open>d[k] = v\<close> on a dictionary.\<close>

definition py_setitem :: "pydict \<Rightarrow> string \<Rightarrow> pyval \<Rightarrow> pydict" where
  "py_setitem d k v =
     (if k \<in> set (map fst d) then map (\<lambda>kv. if fst kv = k then (k, v) else kv) d
      else d @ [(k, v)])"

definition dict_of_pairs :: "(string \<times> pyval) list \<Rightarrow> pydict" where
  "dict_of_pairs kvs = foldl (\<lambda>d kv. py_setitem d (fst kv) (snd kv)) [] kvs"

primrec json_load_document :: "json \<Rightarrow> pyval" where
  "json_load_document JNull = PNone"
| "json_load_document (JBool b) = PBool b"
| "json_load_document (JInt i) = PInt i"
| "json_load_document (JReal q) = PFloat q"
| "json_load_document (JString s) = PStr s"
| "json_load_document (JArray xs) = PList (map json_load_document xs)"
| "json_load_document (JObject kvs) =
     PDict (dict_of_pairs (map (map_prod id json_load_document) kvs))"

section \<open>The external libraries\<close>

text \<open>
  Everything else the scripts import is a parameter: \<^verbatim>\<open>timm\<close>, \<^verbatim>\<open>torch\<close>,
  \<^verbatim>\<open>fvcore\<close>, \<^verbatim>\<open>thop\<close>, \<^verbatim>\<open>yaml\<close>, \<^verbatim>\<open>json.load\<close> and the parsing of the
  \<^verbatim>\<open>--input_shape\<close> string by Python's \<^verbatim>\<open>int\<close> and \<^verbatim>\<open>str.split\<close>. Each call either
  raises (\<open>Inl\<close>) or returns (\<open>Inr\<close>). \<open>'m\<close> is a model, \<open>'t\<close> a tensor and \<open>'a\<close> a
  \<^verbatim>\<open>FlopCountAnalysis\<close> object.
  \<^item> \<open>model_parameters\<close> gives \<^verbatim>\<open>p.numel()\<close> for each \<^verbatim>\<open>p in model.parameters()\<close>;
  \<^item> \<open>flops_by_operator\<close> and \<open>flops_by_module\<close> give the items of the counters;
  \<^item> \<open>thop_profile\<close> gives the pair \<^verbatim>\<open>(macs, params)\<close>, two floats;
  \<^item> \<open>yaml_safe_load\<close> opens the path and parses it;
  \<^item> \<open>json_load\<close> opens the path and parses a report: \<^verbatim>\<open>json.load\<close> on a file
    that holds a JSON array of objects, as the list of their dictionaries;
  \<^item> \<open>write_file\<close> is \<^verbatim>\<open>open(path, 'w')\<close> and the writing of a document's text to it.
\<close>

record ('m, 't, 'a) externals =
  parse_input_shape :: "string \<Rightarrow> exn + int list"
  yaml_safe_load :: "string \<Rightarrow> exn + pyval"
  create_model :: "pyval \<Rightarrow> exn + 'm"
  model_eval :: "'m \<Rightarrow> exn + 'm"
  torch_rand :: "int list \<Rightarrow> exn + 't"
  model_parameters :: "'m \<Rightarrow> exn + int list"
  FlopCountAnalysis :: "'m \<Rightarrow> 't \<Rightarrow> exn + 'a"
  flops_total :: "'a \<Rightarrow> exn + int"
  flops_by_operator :: "'a \<Rightarrow> exn + (string \<times> int) list"
  flops_by_module :: "'a \<Rightarrow> exn + (string \<times> int) list"
  deepcopy :: "'m \<Rightarrow> exn + 'm"
  thop_profile :: "'m \<Rightarrow> 't \<Rightarrow> exn + rat \<times> rat"
  json_load :: "string \<Rightarrow> exn + pydict list"
  write_file :: "string \<Rightarrow> json \<Rightarrow> exn + unit"

section \<open>Python built-ins used by the scripts\<close>

text \<open>\<^verbatim>\<open>int(x)\<close> of a finite float truncates towards zero.\<close>

definition py_int :: "rat \<Rightarrow> int" where
  "py_int q = (if 0 \<le> q then \<lfloor>q\<rfloor> else \<lceil>q\<rceil>)"

text \<open>Truth value of an object, as \<^verbatim>\<open>not x\<close> tests it.\<close>

fun truthy :: "pyval \<Rightarrow> bool" where
  "truthy PNone = False"
| "truthy (PBool b) = b"
| "truthy (PInt i) = (i \<noteq> 0)"
| "truthy (PFloat q) = (q \<noteq> 0)"
| "truthy (PStr s) = (s \<noteq> [])"
| "truthy (PList xs) = (xs \<noteq> [])"
| "truthy (PDict kvs) = (kvs \<noteq> [])"

text \<open>
  What a \<^verbatim>\<open>for\<close> loop ranges over: the elements of a list, the characters of a string,
  the keys of a dictionary; any other object is not iterable.
\<close>

fun py_iter :: "pyval \<Rightarrow> exn + pyval list" where
  "py_iter (PList xs) = Inr xs"
| "py_iter (PStr s) = Inr (map (\<lambda>c. PStr [c]) s)"
| "py_iter (PDict kvs) = Inr (map (\<lambda>kv. PStr (fst kv)) kvs)"
| "py_iter v = Inl (TypeError ''object is not iterable'')"

text \<open>\<^verbatim>\<open>config.get("models", [])\<close>: only a dictionary has the method.\<close>

fun config_get_models :: "pyval \<Rightarrow> exn + pyval" where
  "config_get_models (PDict kvs) =
     (case map_of kvs ''models'' of None \<Rightarrow> Inr (PList []) | Some v \<Rightarrow> Inr v)"
| "config_get_models v = Inl (AttributeError ''object has no attribute get'')"

text \<open>\<^verbatim>\<open>d[k]\<close> on a dictionary.\<close>

definition subscript :: "pydict \<Rightarrow> string \<Rightarrow> exn + pyval" where
  "subscript d k = (case map_of d k of None \<Rightarrow> Inl (KeyError k) | Some v \<Rightarrow> Inr v)"

text \<open>\<^verbatim>\<open>k in d\<close> on a dictionary.\<close>

definition has_key :: "pydict \<Rightarrow> string \<Rightarrow> bool" where
  "has_key d k = (map_of d k \<noteq> None)"

section \<open>The analyzers\<close>

text \<open>\<^verbatim>\<open>load_config\<close>, the same in both scripts.\<close>

definition load_config :: "('m, 't, 'a) externals \<Rightarrow> string \<Rightarrow> exn + pyval" where
  "load_config ext config_path = yaml_safe_load ext config_path"

text \<open>The record of a failed analysis, the same in both scripts.\<close>

definition error_record :: "pyval \<Rightarrow> exn \<Rightarrow> pydict" where
  "error_record model_name e = [(''model_name'', model_name), (''error'', PStr (str_exn e))]"

text \<open>\<^verbatim>\<open>dict(counter)\<close>, with integer counts.\<close>

definition dict_of_counts :: "(string \<times> int) list \<Rightarrow> pyval" where
  "dict_of_counts kvs = PDict (map (\<lambda>kv. (fst kv, PInt (snd kv))) kvs)"

text \<open>
  \<^verbatim>\<open>analyze_model\<close> of \<^verbatim>\<open>src/main.py\<close> (fvcore): first the body of the \<^verbatim>\<open>try\<close>,
  then the function with its \<^verbatim>\<open>except Exception\<close>. \<^verbatim>\<open>//\<close> on integers is \<open>div\<close>.
\<close>

definition fvcore_try :: "('m, 't, 'a) externals \<Rightarrow> pyval \<Rightarrow> int list \<Rightarrow> exn + pydict" where
  "fvcore_try ext model_name input_shape =
     and_then (create_model ext model_name) (\<lambda>model0.
     and_then (model_eval ext model0) (\<lambda>model.
     and_then (torch_rand ext input_shape) (\<lambda>input_tensor.
     and_then (model_parameters ext model) (\<lambda>numels.
     let total_params = sum_list numels in
     and_then (FlopCountAnalysis ext model input_tensor) (\<lambda>flops.
     and_then (flops_total ext flops) (\<lambda>total_flops.
     and_then (flops_by_operator ext flops) (\<lambda>by_operator.
     and_then (flops_by_module ext flops) (\<lambda>by_module.
     let total_macs = total_flops div 2 in
     Inr [(''model_name'', model_name),
          (''total_params'', PInt total_params),
          (''total_flops'', PInt total_flops),
          (''total_macs'', PInt total_macs),
          (''flops_by_operator'', dict_of_counts by_operator),
          (''flops_by_module'', dict_of_counts by_module)]))))))))"

definition analyze_model_fvcore ::
  "('m, 't, 'a) externals \<Rightarrow> pyval \<Rightarrow> int list \<Rightarrow> pydict" where
  "analyze_model_fvcore ext model_name input_shape =
     (case fvcore_try ext model_name input_shape of
        Inr result \<Rightarrow> result
      | Inl e \<Rightarrow> error_record model_name e)"

text \<open>\<^verbatim>\<open>analyze_model\<close> of \<^verbatim>\<open>src/model_analyzer.py\<close> (thop).\<close>

definition thop_try :: "('m, 't, 'a) externals \<Rightarrow> pyval \<Rightarrow> int list \<Rightarrow> exn + pydict" where
  "thop_try ext model_name input_shape =
     and_then (create_model ext model_name) (\<lambda>model0.
     and_then (model_eval ext model0) (\<lambda>model.
     and_then (torch_rand ext input_shape) (\<lambda>input_tensor.
     and_then (deepcopy ext model) (\<lambda>model_copy.
     and_then (thop_profile ext model_copy input_tensor) (\<lambda>(macs, params).
     let flops = macs * 2;
         gflops = flops / 1000000000;
         gmacs = macs / 1000000000 in
     Inr [(''model_name'', model_name),
          (''total_params'', PInt (py_int params)),
          (''total_flops'', PInt (py_int flops)),
          (''total_macs'', PInt (py_int macs)),
          (''gflops'', PFloat gflops),
          (''gmacs'', PFloat gmacs)])))))"

definition analyze_model_thop ::
  "('m, 't, 'a) externals \<Rightarrow> pyval \<Rightarrow> int list \<Rightarrow> pydict" where
  "analyze_model_thop ext model_name input_shape =
     (case thop_try ext model_name input_shape of
        Inr result \<Rightarrow> result
      | Inl e \<Rightarrow> error_record model_name e)"

section \<open>The batch entry points\<close>

text \<open>
  The command line after \<^verbatim>\<open>argparse\<close>, the lines printed, and what a run leaves behind:
  the lines in order and each file written, as the path with the JSON document. A run
  that raises is \<open>Inl\<close>: what it printed or wrote before is not kept.
\<close>

record cli_args =
  arg_config :: string
  arg_output :: string
  arg_input_shape :: string

datatype out_line =
    Line string
  | AnalyzingModel pyval
  | AnalysisCompleted string

record run =
  printed :: "out_line list"
  written :: "(string \<times> json) list"

definition no_models_run :: run where
  "no_models_run =
     \<lparr>printed = [Line ''No models specified in the configuration file.''], written = []\<rparr>"

text \<open>
  The \<^verbatim>\<open>for\<close> loop of \<^verbatim>\<open>main\<close>, with the analyzer as an argument: the state is the
  lines printed so far and the list \<^verbatim>\<open>results\<close>.
\<close>

fun analyze_each ::
  "(pyval \<Rightarrow> pydict) \<Rightarrow> pyval list \<Rightarrow> out_line list \<times> pydict list \<Rightarrow> out_line list \<times> pydict list"
where
  "analyze_each analyze [] st = st"
| "analyze_each analyze (model_name # rest) (out, results) =
     analyze_each analyze rest
       (out @ [AnalyzingModel model_name], results @ [analyze model_name])"

text \<open>
  \<^verbatim>\<open>main\<close>, the same text in both scripts but for the analyzer it calls. The
  \<^verbatim>\<open>with open(output_path, 'w')\<close> and the \<^verbatim>\<open>json.dump\<close> in it are not inside any
  \<^verbatim>\<open>try\<close>: if the file cannot be opened or written, \<^verbatim>\<open>main\<close> raises.
\<close>

definition main_with ::
  "(('m, 't, 'a) externals \<Rightarrow> pyval \<Rightarrow> int list \<Rightarrow> pydict) \<Rightarrow>
   ('m, 't, 'a) externals \<Rightarrow> cli_args \<Rightarrow> exn + run" where
  "main_with analyze_model ext a =
     and_then (parse_input_shape ext (arg_input_shape a)) (\<lambda>input_shape.
     and_then (load_config ext (arg_config a)) (\<lambda>config.
     and_then (config_get_models config) (\<lambda>model_names.
     if \<not> truthy model_names then Inr no_models_run
     else
       and_then (py_iter model_names) (\<lambda>names.
       let (out, results) =
             analyze_each (\<lambda>model_name. analyze_model ext model_name input_shape) names ([], []);
           output_path = arg_output a;
           document = json_dump (PList (map PDict results)) in
       and_then (write_file ext output_path document) (\<lambda>u.
       Inr \<lparr>printed = out @ [AnalysisCompleted output_path],
            written = [(output_path, document)]\<rparr>)))))"

definition main_fvcore :: "('m, 't, 'a) externals \<Rightarrow> cli_args \<Rightarrow> exn + run" where
  "main_fvcore = main_with analyze_model_fvcore"

definition main_thop :: "('m, 't, 'a) externals \<Rightarrow> cli_args \<Rightarrow> exn + run" where
  "main_thop = main_with analyze_model_thop"

section \<open>The renderer\<close>

text \<open>
  \<^verbatim>\<open>f'{value:.2f}'\<close> prints the exact value of the float, rounded half-even to two
  decimals: the integer part in decimal, a point and two digits, with a minus sign in
  front of a negative value.
\<close>

definition digit_char :: "nat \<Rightarrow> char" where
  "digit_char d = ''0123456789'' ! d"

function string_of_nat :: "nat \<Rightarrow> string" where
  "string_of_nat n =
     (if n < 10 then [digit_char n] else string_of_nat (n div 10) @ [digit_char (n mod 10)])"
  by pat_completeness auto
termination
  by (relation "measure (\<lambda>n. n)") auto

definition round_half_even :: "rat \<Rightarrow> int" where
  "round_half_even q =
     (let n = \<lfloor>q\<rfloor>; r = q - of_int n in
      if r < 1 / 2 then n
      else if 1 / 2 < r then n + 1
      else if even n then n else n + 1)"

definition fmt2f_abs :: "rat \<Rightarrow> string" where
  "fmt2f_abs q =
     (let c = nat (round_half_even (q * 100)) in
      string_of_nat (c div 100) @ ''.'' @ [digit_char (c mod 100 div 10), digit_char (c mod 10)])"

definition fmt2f :: "rat \<Rightarrow> string" where
  "fmt2f q = (if q < 0 then ''-'' @ fmt2f_abs (- q) else fmt2f_abs q)"

text \<open>
  Binary floating point, for the renderer. \<open>round_double\<close> is the IEEE 754 double
  nearest to a rational, ties to the even significand: the value is scaled by a power
  of two so that the significand has 53 bits (or, below \<open>2 ^ -1022\<close>, so that the unit
  is \<open>2 ^ -1074\<close>) and rounded to an integer. \<open>to_float\<close> is the conversion of an
  integer to a float: a result of \<open>2 ^ 1024\<close> or more raises \<^verbatim>\<open>OverflowError\<close>.
\<close>

definition pow2 :: "int \<Rightarrow> rat" where
  "pow2 e = (if 0 \<le> e then 2 ^ nat e else 1 / 2 ^ nat (- e))"

definition floor_log2 :: "rat \<Rightarrow> int" where
  "floor_log2 a =
     (let (n, d) = quotient_of a; k = bitlen n - bitlen d in
      if pow2 k \<le> a then k else k - 1)"

definition round_double :: "rat \<Rightarrow> rat" where
  "round_double q =
     (if q = 0 then 0
      else let a = \<bar>q\<bar>;
               e = max (floor_log2 a - 52) (- 1074);
               m = round_half_even (a / pow2 e) in
           sgn q * of_int m * pow2 e)"

definition to_float :: "rat \<Rightarrow> exn + rat" where
  "to_float q =
     (let r = round_double q in
      if \<bar>r\<bar> < 2 ^ 1024 then Inr r
      else Inl (OverflowError ''int too large to convert to float''))"

text \<open>
  A value used as a float (a bar height, the argument of the \<^verbatim>\<open>.2f\<close> format): a
  float is itself, an integer is converted, a boolean is an integer, anything else
  raises. The class of that exception depends on the library that meets the value
  first; the model says \<^verbatim>\<open>TypeError\<close>.
\<close>

fun as_number :: "pyval \<Rightarrow> exn + rat" where
  "as_number (PInt i) = to_float (of_int i)"
| "as_number (PFloat q) = Inr q"
| "as_number (PBool b) = Inr (if b then 1 else 0)"
| "as_number v = Inl (TypeError ''not a number'')"

text \<open>
  \<^verbatim>\<open>val / 1_000_000\<close>. The quotient of two integers is rounded once, from the exact
  quotient, and raises \<^verbatim>\<open>OverflowError\<close> when it is too large for a float; a float
  is divided by the float 1000000.0, which cannot overflow; a boolean is an integer.
\<close>

fun true_div_million :: "pyval \<Rightarrow> exn + pyval" where
  "true_div_million (PInt i) =
     (let r = round_double (of_int i / 1000000) in
      if \<bar>r\<bar> < 2 ^ 1024 then Inr (PFloat r)
      else Inl (OverflowError ''integer division result too large for a float''))"
| "true_div_million (PFloat q) = Inr (PFloat (round_double (q / 1000000)))"
| "true_div_million (PBool b) = Inr (PFloat (round_double ((if b then 1 else 0) / 1000000)))"
| "true_div_million v = Inl (TypeError ''unsupported operand type(s) for /'')"

definition format_2f :: "pyval \<Rightarrow> exn + string" where
  "format_2f v = and_then (as_number v) (\<lambda>q. Inr (fmt2f q))"

text \<open>A list comprehension whose element expression may raise.\<close>

fun map_exn :: "('a \<Rightarrow> exn + 'b) \<Rightarrow> 'a list \<Rightarrow> exn + 'b list" where
  "map_exn f [] = Inr []"
| "map_exn f (x # xs) =
     and_then (f x) (\<lambda>y. and_then (map_exn f xs) (\<lambda>ys. Inr (y # ys)))"

text \<open>
  What matplotlib is asked to draw: the bars (tick label and height) in order, and the
  texts placed by \<^verbatim>\<open>plt.text\<close>, each with the height it is anchored at
  (\<^verbatim>\<open>va='bottom'\<close>: the text sits on top of that height) and its string.
\<close>

record chart =
  chart_title :: string
  chart_ylabel :: string
  chart_bars :: "(pyval \<times> rat) list"
  chart_texts :: "(rat \<times> string) list"

datatype image =
    BarChart chart
  | Table "(pyval \<times> string \<times> string) list"
  | Grid "image list"

record plot_run =
  plot_printed :: "string list"
  saved :: "(string \<times> image) list"

definition load_model_analysis ::
  "('m, 't, 'a) externals \<Rightarrow> string \<Rightarrow> exn + pydict list" where
  "load_model_analysis ext json_path =
     and_then (json_load ext json_path) (\<lambda>data.
     let valid_models = filter (\<lambda>model. \<not> has_key model ''error'') data in
     Inr valid_models)"

definition create_bar_plot ::
  "pydict list \<Rightarrow> string \<Rightarrow> string \<Rightarrow> string \<Rightarrow> exn + chart" where
  "create_bar_plot models metric_name title y_label =
     and_then (map_exn (\<lambda>model. subscript model ''model_name'') models) (\<lambda>model_names.
     and_then (map_exn (\<lambda>model. subscript model metric_name) models) (\<lambda>metric_values0.
     and_then (if metric_name = ''total_params''
               then map_exn true_div_million metric_values0
               else Inr metric_values0) (\<lambda>metric_values.
     let y_label1 = (if metric_name = ''total_params'' then ''Parameters (M)'' else y_label) in
     and_then (map_exn as_number metric_values) (\<lambda>heights.
     let bars = zip model_names heights in
     Inr \<lparr>chart_title = title, chart_ylabel = y_label1, chart_bars = bars,
          chart_texts = map (\<lambda>(bar, value). (snd bar, fmt2f value)) (zip bars heights)\<rparr>))))"

definition table_row :: "pydict \<Rightarrow> exn + pyval \<times> string \<times> string" where
  "table_row model =
     and_then (subscript model ''model_name'') (\<lambda>model_name.
     and_then (subscript model ''total_params'') (\<lambda>total_params.
     and_then (true_div_million total_params) (\<lambda>params_m.
     and_then (subscript model ''gflops'') (\<lambda>gflops.
     and_then (format_2f params_m) (\<lambda>params_text.
     and_then (format_2f gflops) (\<lambda>gflops_text.
     Inr (model_name, params_text, gflops_text)))))))"

definition create_table_image :: "pydict list \<Rightarrow> exn + image" where
  "create_table_image models = and_then (map_exn table_row models) (\<lambda>rows. Inr (Table rows))"

text \<open>
  \<^verbatim>\<open>main\<close> of the renderer. Resizing, conversion to tensors and the pixels of the grid
  are not modelled: an image is what it shows.
\<close>

definition plot_main :: "('m, 't, 'a) externals \<Rightarrow> exn + plot_run" where
  "plot_main ext =
     and_then (load_model_analysis ext ''caformer/model_analysis.json'') (\<lambda>models.
     if models = [] then
       Inr \<lparr>plot_printed = [''No valid models found in the JSON file.''], saved = []\<rparr>
     else
       and_then (create_bar_plot models ''total_params'' ''Model Parameters'' ''Parameters (M)'')
         (\<lambda>params_chart.
       and_then (create_bar_plot models ''gflops'' ''Model GFLOPs'' ''GFLOPs'') (\<lambda>gflops_chart.
       and_then (create_table_image models) (\<lambda>table_image.
       let params_plot = BarChart params_chart;
           gflops_plot = BarChart gflops_chart;
           grid_image = Grid [params_plot, gflops_plot, table_image] in
       Inr \<lparr>plot_printed = [''Saved grid image to model_analysis_grid.png'',
                            ''Saved individual plots as well.''],
            saved = [(''model_analysis_grid.png'', grid_image),
                     (''model_parameters.png'', params_plot),
                     (''model_gflops.png'', gflops_plot),
                     (''model_table.png'', table_image)]\<rparr>))))"

section \<open>A concrete setting\<close>

text \<open>
  External libraries for the examples below: the registry knows the model \<^verbatim>\<open>a\<close> only
  (two parameter tensors, of 600000 and 400000 elements), fvcore counts \<open>n_flops\<close>
  operations and thop \<open>macs\<close> multiply-accumulates and 1000000 parameters; the
  configuration file holds \<open>config\<close> and the report file \<open>report\<close>; every file can
  be written but one in the directory \<^verbatim>\<open>nodir\<close>, which does not exist.
\<close>

definition scenario ::
  "pyval \<Rightarrow> int \<Rightarrow> rat \<Rightarrow> pydict list \<Rightarrow> (unit, unit, unit) externals" where
  "scenario config n_flops macs report =
     \<lparr>parse_input_shape = (\<lambda>s. Inr [1, 3, 224, 224]),
      yaml_safe_load = (\<lambda>path. Inr config),
      create_model = (\<lambda>name. if name = PStr ''a'' then Inr ()
                               else Inl (RuntimeError ''Unknown model'')),
      model_eval = Inr,
      torch_rand = (\<lambda>shape. Inr ()),
      model_parameters = (\<lambda>m. Inr [600000, 400000]),
      FlopCountAnalysis = (\<lambda>m t. Inr ()),
      flops_total = (\<lambda>f. Inr n_flops),
      flops_by_operator = (\<lambda>f. Inr [(''conv'', n_flops)]),
      flops_by_module = (\<lambda>f. Inr [('''', n_flops)]),
      deepcopy = Inr,
      thop_profile = (\<lambda>m t. Inr (macs, 1000000)),
      json_load = (\<lambda>path. Inr report),
      write_file = (\<lambda>path document. if path = ''nodir/out.json''
                                       then Inl (FileNotFoundError path) else Inr ())\<rparr>"

definition demo_args :: cli_args where
  "demo_args = \<lparr>arg_config = ''config.yaml'', arg_output = ''model_analysis.json'',
                 arg_input_shape = ''1,3,224,224''\<rparr>"

definition nodir_args :: cli_args where
  "nodir_args = \<lparr>arg_config = ''config.yaml'', arg_output = ''nodir/out.json'',
                  arg_input_shape = ''1,3,224,224''\<rparr>"

definition two_models :: pyval where
  "two_models = PDict [(''models'', PList [PStr ''a'', PStr ''b''])]"

definition no_models :: pyval where
  "no_models = PDict [(''models'', PList [])]"

section \<open>The record invariant, as the specification words it\<close>

text \<open>
  A numeric field is non-negative when it is a non-negative number, or a dictionary of
  non-negative numbers (the per-operator and per-module breakdowns). A record is
  \<open>error_only\<close> when it has the \<^verbatim>\<open>error\<close> field and none of the metric fields, and
  \<open>metrics_only\<close> when it has no \<^verbatim>\<open>error\<close> field and every metric field, non-negative.
  \<open>counts_nonneg\<close> says of the external libraries that the counts they return are
  counts: never negative.
\<close>

fun nonneg_number :: "pyval \<Rightarrow> bool" where
  "nonneg_number (PInt i) = (0 \<le> i)"
| "nonneg_number (PFloat q) = (0 \<le> q)"
| "nonneg_number v = False"

fun nonneg_metric :: "pyval \<Rightarrow> bool" where
  "nonneg_metric (PDict kvs) = list_all (\<lambda>kv. nonneg_number (snd kv)) kvs"
| "nonneg_metric v = nonneg_number v"

definition metric_fields_fvcore :: "string list" where
  "metric_fields_fvcore =
     [''total_params'', ''total_flops'', ''total_macs'', ''flops_by_operator'', ''flops_by_module'']"

definition metric_fields_thop :: "string list" where
  "metric_fields_thop = [''total_params'', ''total_flops'', ''total_macs'', ''gflops'', ''gmacs'']"

definition present_nonneg :: "pydict \<Rightarrow> string \<Rightarrow> bool" where
  "present_nonneg r k = (case map_of r k of None \<Rightarrow> False | Some v \<Rightarrow> nonneg_metric v)"

definition error_only :: "string list \<Rightarrow> pydict \<Rightarrow> bool" where
  "error_only ks r = (has_key r ''error'' \<and> list_all (\<lambda>k. \<not> has_key r k) ks)"

definition metrics_only :: "string list \<Rightarrow> pydict \<Rightarrow> bool" where
  "metrics_only ks r = (\<not> has_key r ''error'' \<and> list_all (present_nonneg r) ks)"

definition counts_nonneg :: "('m, 't, 'a) externals \<Rightarrow> bool" where
  "counts_nonneg ext =
     ((\<forall>m xs. model_parameters ext m = Inr xs \<longrightarrow> (\<forall>x\<in>set xs. 0 \<le> x))
    \<and> (\<forall>f n. flops_total ext f = Inr n \<longrightarrow> 0 \<le> n)
    \<and> (\<forall>f kvs. flops_by_operator ext f = Inr kvs \<longrightarrow> (\<forall>kv\<in>set kvs. 0 \<le> snd kv))
    \<and> (\<forall>f kvs. flops_by_module ext f = Inr kvs \<longrightarrow> (\<forall>kv\<in>set kvs. 0 \<le> snd kv))
    \<and> (\<forall>m t macs params. thop_profile ext m t = Inr (macs, params) \<longrightarrow> 0 \<le> macs \<and> 0 \<le> params))"

definition no_models_key :: pyval where
  "no_models_key = PDict [(''input_shape'', PList [PInt 1, PInt 3, PInt 224, PInt 224])]"

definition null_models :: pyval where
  "null_models = PDict [(''models'', PNone)]"

section \<open>Reports and charts for the examples\<close>

text \<open>
  \<open>report_ab\<close> is the report of the concrete scenario of the specification: \<^verbatim>\<open>a\<close>
  analyzed (1000000 parameters, 2000000000 operations) and \<^verbatim>\<open>b\<close> failed.
  \<open>bars_of ms metric height c\<close> says that the chart \<open>c\<close> has exactly one bar per record
  of \<open>ms\<close>, in order, the \<open>i\<close>-th labelled with the \<open>i\<close>-th record's name and as high as
  \<open>height\<close> makes its metric, and one text per bar, anchored at the bar's height and
  showing that height with two decimals.
\<close>

definition report_ab :: "pydict list" where
  "report_ab =
     [[(''model_name'', PStr ''a''), (''total_params'', PInt 1000000),
       (''total_flops'', PInt 2000000000), (''total_macs'', PInt 1000000000),
       (''gflops'', PFloat 2), (''gmacs'', PFloat 1)],
      [(''model_name'', PStr ''b''), (''error'', PStr ''Unknown model'')]]"

definition report_b :: "pydict list" where
  "report_b = [[(''model_name'', PStr ''b''), (''error'', PStr ''Unknown model'')]]"

definition expected_bar ::
  "pydict \<Rightarrow> string \<Rightarrow> (pyval \<Rightarrow> exn + rat) \<Rightarrow> (pyval \<times> rat) option" where
  "expected_bar m metric height =
     (case (subscript m ''model_name'', subscript m metric) of
        (Inr name, Inr v) \<Rightarrow> (case height v of Inr h \<Rightarrow> Some (name, h) | Inl e \<Rightarrow> None)
      | _ \<Rightarrow> None)"

definition bars_of ::
  "pydict list \<Rightarrow> string \<Rightarrow> (pyval \<Rightarrow> exn + rat) \<Rightarrow> chart \<Rightarrow> bool" where
  "bars_of ms metric height c =
     (length (chart_bars c) = length ms
      \<and> map Some (chart_bars c) = map (\<lambda>m. expected_bar m metric height) ms
      \<and> chart_texts c = map (\<lambda>bar. (snd bar, fmt2f (snd bar))) (chart_bars c))"

text \<open>The height of a bar of the parameters chart: \<^verbatim>\<open>val / 1_000_000\<close>, as a float.\<close>

definition millions :: "pyval \<Rightarrow> exn + rat" where
  "millions v = and_then (true_div_million v) as_number"

section \<open>Well-formed values\<close>

text \<open>
  A Python dictionary has each key once. \<open>keys_distinct\<close> says so of every dictionary
  in a value, and \<open>counters_are_dicts\<close> of the counters that fvcore returns, which the
  model receives as lists of items.
\<close>

fun keys_distinct :: "pyval \<Rightarrow> bool" where
  "keys_distinct (PList xs) = (\<forall>x\<in>set xs. keys_distinct x)"
| "keys_distinct (PDict kvs) =
     (distinct (map fst kvs) \<and> (\<forall>kv\<in>set kvs. keys_distinct (snd kv)))"
| "keys_distinct v = True"

definition counters_are_dicts :: "('m, 't, 'a) externals \<Rightarrow> bool" where
  "counters_are_dicts ext =
     ((\<forall>f kvs. flops_by_operator ext f = Inr kvs \<longrightarrow> distinct (map fst kvs))
    \<and> (\<forall>f kvs. flops_by_module ext f = Inr kvs \<longrightarrow> distinct (map fst kvs)))"

text \<open>
  The scenario with counters that raise: fvcore on taking the total, thop while it
  profiles.
\<close>

definition counting_fails :: "(unit, unit, unit) externals" where
  "counting_fails =
     (scenario two_models 2000000000 1000000000 [])
       \<lparr>flops_total := (\<lambda>f. Inl (RuntimeError ''unsupported operator'')),
        thop_profile := (\<lambda>m t. Inl (RuntimeError ''out of memory''))\<rparr>"

section \<open>Basic facts\<close>

lemma and_then_Inr [simp]: "and_then (Inr x) f = f x"
  by (simp add: and_then_def)

lemma and_then_Inl [simp]: "and_then (Inl e) f = Inl e"
  by (simp add: and_then_def)

lemma analyze_each_eq:
  "analyze_each f names (out, results) = (out @ map AnalyzingModel names, results @ map f names)"
  by (induction names arbitrary: out results) simp_all

lemma main_with_list:
  assumes "parse_input_shape ext (arg_input_shape a) = Inr shape"
    and "load_config ext (arg_config a) = Inr (PDict kvs)"
    and "map_of kvs ''models'' = Some (PList names)"
    and "names \<noteq> []"
  shows "main_with analyze ext a =
           and_then
             (write_file ext (arg_output a)
                (JArray (map (\<lambda>r. json_dump (PDict r)) (map (\<lambda>n. analyze ext n shape) names))))
             (\<lambda>u. Inr \<lparr>printed = map AnalyzingModel names @ [AnalysisCompleted (arg_output a)],
                        written = [(arg_output a,
                          JArray (map (\<lambda>r. json_dump (PDict r))
                                    (map (\<lambda>n. analyze ext n shape) names)))]\<rparr>)"
  using assms by (simp add: main_with_def analyze_each_eq Let_def comp_def)

lemma main_with_written:
  assumes "parse_input_shape ext (arg_input_shape a) = Inr shape"
    and "load_config ext (arg_config a) = Inr (PDict kvs)"
    and "map_of kvs ''models'' = Some (PList names)"
    and "names \<noteq> []"
    and "write_file ext (arg_output a)
           (JArray (map (\<lambda>r. json_dump (PDict r)) (map (\<lambda>n. analyze ext n shape) names)))
         = Inr ()"
  shows "main_with analyze ext a =
           Inr \<lparr>printed = map AnalyzingModel names @ [AnalysisCompleted (arg_output a)],
                written = [(arg_output a,
                  JArray (map (\<lambda>r. json_dump (PDict r))
                            (map (\<lambda>n. analyze ext n shape) names)))]\<rparr>"
  by (simp only: main_with_list [OF assms(1-4)] assms(5) and_then_Inr)

lemma main_with_unwritten:
  assumes "parse_input_shape ext (arg_input_shape a) = Inr shape"
    and "load_config ext (arg_config a) = Inr (PDict kvs)"
    and "map_of kvs ''models'' = Some (PList names)"
    and "names \<noteq> []"
    and "write_file ext (arg_output a)
           (JArray (map (\<lambda>r. json_dump (PDict r)) (map (\<lambda>n. analyze ext n shape) names)))
         = Inl e"
  shows "main_with analyze ext a = Inl e"
  by (simp only: main_with_list [OF assms(1-4)] assms(5) and_then_Inl)

lemma json_dump_report:
  "json_dump (PList (map PDict recs)) = JArray (map (\<lambda>r. json_dump (PDict r)) recs)"
  by (simp add: comp_def)

lemma main_with_falsy:
  assumes "parse_input_shape ext (arg_input_shape a) = Inr shape"
    and "load_config ext (arg_config a) = Inr config"
    and "config_get_models config = Inr v"
    and "\<not> truthy v"
  shows "main_with analyze ext a = Inr no_models_run"
  using assms by (simp add: main_with_def)

lemma fvcore_try_model_name:
  "fvcore_try ext n s = Inr r \<Longrightarrow> map_of r ''model_name'' = Some n"
  by (auto simp: fvcore_try_def and_then_def Let_def split: sum.splits)

lemma thop_try_model_name:
  "thop_try ext n s = Inr r \<Longrightarrow> map_of r ''model_name'' = Some n"
  by (auto simp: thop_try_def and_then_def Let_def split: sum.splits prod.splits)

lemma analyze_model_fvcore_name:
  "subscript (analyze_model_fvcore ext n s) ''model_name'' = Inr n"
  by (auto simp: analyze_model_fvcore_def subscript_def error_record_def
      dest: fvcore_try_model_name split: sum.splits)

lemma analyze_model_thop_name:
  "subscript (analyze_model_thop ext n s) ''model_name'' = Inr n"
  by (auto simp: analyze_model_thop_def subscript_def error_record_def
      dest: thop_try_model_name split: sum.splits)

lemma scenario_parse: "parse_input_shape (scenario c f m r) s = Inr [1, 3, 224, 224]"
  by (simp add: scenario_def)

lemma scenario_load: "load_config (scenario c f m r) p = Inr c"
  by (simp add: scenario_def load_config_def)

lemma fvcore_try_Inr:
  assumes "fvcore_try ext n s = Inr r"
  obtains m0 m t xs f nf ops mods where
    "create_model ext n = Inr m0" "model_eval ext m0 = Inr m" "torch_rand ext s = Inr t"
    "model_parameters ext m = Inr xs" "FlopCountAnalysis ext m t = Inr f"
    "flops_total ext f = Inr nf" "flops_by_operator ext f = Inr ops"
    "flops_by_module ext f = Inr mods"
    "r = [(''model_name'', n), (''total_params'', PInt (sum_list xs)),
          (''total_flops'', PInt nf), (''total_macs'', PInt (nf div 2)),
          (''flops_by_operator'', dict_of_counts ops),
          (''flops_by_module'', dict_of_counts mods)]"
  using assms
  by (auto simp: fvcore_try_def and_then_def Let_def split: sum.splits)

lemma thop_try_Inr:
  assumes "thop_try ext n s = Inr r"
  obtains m0 m t mc macs params where
    "create_model ext n = Inr m0" "model_eval ext m0 = Inr m" "torch_rand ext s = Inr t"
    "deepcopy ext m = Inr mc" "thop_profile ext mc t = Inr (macs, params)"
    "r = [(''model_name'', n), (''total_params'', PInt (py_int params)),
          (''total_flops'', PInt (py_int (macs * 2))), (''total_macs'', PInt (py_int macs)),
          (''gflops'', PFloat (macs * 2 / 1000000000)),
          (''gmacs'', PFloat (macs / 1000000000))]"
  using assms
  by (auto simp: thop_try_def and_then_def Let_def split: sum.splits prod.splits)

lemma py_int_nonneg: "0 \<le> q \<Longrightarrow> 0 \<le> py_int q"
  by (simp add: py_int_def)

lemma nonneg_dict_of_counts:
  "\<forall>kv\<in>set kvs. 0 \<le> snd kv \<Longrightarrow> nonneg_metric (dict_of_counts kvs)"
  by (simp add: dict_of_counts_def list_all_iff)

lemma error_record_error_only:
  "''error'' \<notin> set ks \<Longrightarrow> ''model_name'' \<notin> set ks \<Longrightarrow>
   error_only ks (error_record n e) \<and> \<not> metrics_only ks (error_record n e)"
  by (auto simp: error_only_def metrics_only_def error_record_def has_key_def list_all_iff)

lemma fvcore_success_metrics_only:
  assumes "counts_nonneg ext" and "fvcore_try ext n s = Inr r"
  shows "metrics_only metric_fields_fvcore r \<and> \<not> error_only metric_fields_fvcore r"
proof -
  from assms(2) obtain m0 m t xs f nf ops mods where
    p: "model_parameters ext m = Inr xs" and tot: "flops_total ext f = Inr nf"
    and o: "flops_by_operator ext f = Inr ops" and md: "flops_by_module ext f = Inr mods"
    and r: "r = [(''model_name'', n), (''total_params'', PInt (sum_list xs)),
          (''total_flops'', PInt nf), (''total_macs'', PInt (nf div 2)),
          (''flops_by_operator'', dict_of_counts ops),
          (''flops_by_module'', dict_of_counts mods)]"
    by (rule fvcore_try_Inr)
  from assms(1) p have "\<forall>x\<in>set xs. 0 \<le> x" unfolding counts_nonneg_def by blast
  then have sum: "0 \<le> sum_list xs" by (simp add: sum_list_nonneg)
  from assms(1) tot have nf: "0 \<le> nf" unfolding counts_nonneg_def by blast
  then have half: "0 \<le> nf div 2" by simp
  from assms(1) o have "\<forall>kv\<in>set ops. 0 \<le> snd kv" unfolding counts_nonneg_def by blast
  then have ops: "nonneg_metric (dict_of_counts ops)" by (rule nonneg_dict_of_counts)
  from assms(1) md have "\<forall>kv\<in>set mods. 0 \<le> snd kv" unfolding counts_nonneg_def by blast
  then have mods: "nonneg_metric (dict_of_counts mods)" by (rule nonneg_dict_of_counts)
  show ?thesis
    using sum nf half ops mods
    by (simp add: r metrics_only_def error_only_def has_key_def present_nonneg_def
        metric_fields_fvcore_def)
qed

lemma thop_success_metrics_only:
  assumes "counts_nonneg ext" and "thop_try ext n s = Inr r"
  shows "metrics_only metric_fields_thop r \<and> \<not> error_only metric_fields_thop r"
proof -
  from assms(2) obtain m0 m t mc macs params where
    p: "thop_profile ext mc t = Inr (macs, params)"
    and r: "r = [(''model_name'', n), (''total_params'', PInt (py_int params)),
          (''total_flops'', PInt (py_int (macs * 2))), (''total_macs'', PInt (py_int macs)),
          (''gflops'', PFloat (macs * 2 / 1000000000)),
          (''gmacs'', PFloat (macs / 1000000000))]"
    by (rule thop_try_Inr)
  from assms(1) p have nn: "0 \<le> macs" "0 \<le> params" unfolding counts_nonneg_def by blast+
  then have "0 \<le> py_int params" "0 \<le> py_int macs" "0 \<le> py_int (macs * 2)"
    by (simp_all add: py_int_nonneg)
  then show ?thesis
    using nn
    by (simp add: r metrics_only_def error_only_def has_key_def present_nonneg_def
        metric_fields_thop_def)
qed

lemma scenario_counts_nonneg: "0 \<le> f \<Longrightarrow> 0 \<le> m \<Longrightarrow> counts_nonneg (scenario c f m r)"
  by (simp add: counts_nonneg_def scenario_def)

lemma scenario_b_fvcore:
  "fvcore_try (scenario c f m r) (PStr ''b'') s = Inl (RuntimeError ''Unknown model'')"
  by (simp add: fvcore_try_def scenario_def)

lemma scenario_b_thop:
  "thop_try (scenario c f m r) (PStr ''b'') s = Inl (RuntimeError ''Unknown model'')"
  by (simp add: thop_try_def scenario_def)

lemma map_exn_Inr:
  "map_exn f xs = Inr ys \<Longrightarrow> length ys = length xs \<and> map f xs = map Inr ys"
proof (induction xs arbitrary: ys)
  case Nil
  then show ?case by simp
next
  case (Cons x xs)
  then show ?case
    by (auto simp: and_then_def split: sum.splits)
qed

lemma zip_texts:
  "length ns = length hs \<Longrightarrow>
   map (\<lambda>(bar, value). (snd bar, fmt2f value)) (zip (zip ns hs) hs)
     = map (\<lambda>bar. (snd bar, fmt2f (snd bar))) (zip ns hs)"
  by (induction ns hs rule: list_induct2) simp_all

lemma create_bar_plot_bars:
  assumes "create_bar_plot ms metric title y_label = Inr c"
  shows "bars_of ms metric (if metric = ''total_params'' then millions else as_number) c"
proof -
  from assms obtain ns vs0 vs hs where
    ns: "map_exn (\<lambda>model. subscript model ''model_name'') ms = Inr ns"
    and vs0: "map_exn (\<lambda>model. subscript model metric) ms = Inr vs0"
    and vs: "(if metric = ''total_params''
               then map_exn true_div_million vs0
               else Inr vs0) = Inr vs"
    and hs: "map_exn as_number vs = Inr hs"
    and c: "c = \<lparr>chart_title = title,
                 chart_ylabel = (if metric = ''total_params'' then ''Parameters (M)'' else y_label),
                 chart_bars = zip ns hs,
                 chart_texts = map (\<lambda>(bar, value). (snd bar, fmt2f value)) (zip (zip ns hs) hs)\<rparr>"
    unfolding create_bar_plot_def
    by (auto simp: and_then_def Let_def split: sum.splits)
  note n = map_exn_Inr [OF ns] and v0 = map_exn_Inr [OF vs0] and h = map_exn_Inr [OF hs]
  have lv: "length vs = length ms"
    using vs v0 by (auto dest: map_exn_Inr split: if_splits)
  have len: "length ns = length hs" "length hs = length ms"
    using n h lv by simp_all
  have bar: "Some (zip ns hs ! i)
      = expected_bar (ms ! i) metric (if metric = ''total_params'' then millions else as_number)"
    if i: "i < length ms" for i
  proof -
    have a: "subscript (ms ! i) ''model_name'' = Inr (ns ! i)"
      using n i by (metis (no_types, lifting) nth_map)
    have b: "subscript (ms ! i) metric = Inr (vs0 ! i)"
      using v0 i by (metis (no_types, lifting) nth_map)
    have d: "as_number (vs ! i) = Inr (hs ! i)"
      using h i lv by (metis (no_types, lifting) nth_map)
    show ?thesis
    proof (cases "metric = ''total_params''")
      case True
      with vs have "map_exn true_div_million vs0 = Inr vs" by simp
      from map_exn_Inr [OF this] have "true_div_million (vs0 ! i) = Inr (vs ! i)"
        using i v0 by (metis (no_types, lifting) nth_map)
      with d have "millions (vs0 ! i) = Inr (hs ! i)"
        by (simp add: millions_def)
      then show ?thesis
        using a b True i len by (simp add: expected_bar_def)
    next
      case False
      with vs have "vs = vs0" by simp
      then show ?thesis
        using a b d False i len by (simp add: expected_bar_def)
    qed
  qed
  have "map Some (zip ns hs)
      = map (\<lambda>m. expected_bar m metric (if metric = ''total_params'' then millions else as_number)) ms"
    by (rule nth_equalityI) (use len bar in simp_all)
  then show ?thesis
    using len by (simp add: bars_of_def c zip_texts)
qed

lemma million_per_million: "true_div_million (PInt 1000000) = Inr (PFloat 1)"
  by code_simp

lemma rounded_per_million:
  "true_div_million (PInt 1015000) = Inr (PFloat (4571153621781053 / 4503599627370496))"
  by code_simp

lemma fmt2f_rounded: "fmt2f (4571153621781053 / 4503599627370496) = ''1.01''"
  by code_simp

lemma fmt2f_1: "fmt2f 1 = ''1.00''"
  by code_simp

lemma fmt2f_2: "fmt2f 2 = ''2.00''"
  by code_simp

lemma plot_main_valid:
  assumes "json_load ext ''caformer/model_analysis.json'' = Inr data"
    and "plot_main ext = Inr r"
    and "filter (\<lambda>m. \<not> has_key m ''error'') data \<noteq> []"
  obtains pc gc tbl where
    "create_bar_plot (filter (\<lambda>m. \<not> has_key m ''error'') data)
       ''total_params'' ''Model Parameters'' ''Parameters (M)'' = Inr pc"
    "create_bar_plot (filter (\<lambda>m. \<not> has_key m ''error'') data)
       ''gflops'' ''Model GFLOPs'' ''GFLOPs'' = Inr gc"
    "saved r = [(''model_analysis_grid.png'', Grid [BarChart pc, BarChart gc, tbl]),
                (''model_parameters.png'', BarChart pc),
                (''model_gflops.png'', BarChart gc),
                (''model_table.png'', tbl)]"
  using assms
  by (auto simp: plot_main_def load_model_analysis_def and_then_def Let_def split: sum.splits)

lemma py_int_of_int: "py_int (of_int k) = k"
  by (simp add: py_int_def)

lemma py_int_double_Ints: "q \<in> \<int> \<Longrightarrow> py_int (q * 2) = 2 * py_int q"
proof -
  assume "q \<in> \<int>"
  then obtain k where q: "q = of_int k" by (auto elim: Ints_cases)
  have "q * 2 = of_int (k * 2)" by (simp add: q)
  then have "py_int (q * 2) = k * 2" by (simp only: py_int_of_int)
  then show ?thesis by (simp add: q py_int_of_int)
qed

lemma py_int_double_nonneg:
  "0 \<le> q \<Longrightarrow> py_int (q * 2) = 2 * py_int q \<or> py_int (q * 2) = 2 * py_int q + 1"
proof -
  assume nn: "0 \<le> q"
  have a: "of_int \<lfloor>q\<rfloor> \<le> q" "q < of_int \<lfloor>q\<rfloor> + 1" by linarith+
  have "of_int (2 * \<lfloor>q\<rfloor>) \<le> q * 2" using a by simp
  then have lo: "2 * \<lfloor>q\<rfloor> \<le> \<lfloor>q * 2\<rfloor>" by (simp only: le_floor_iff)
  have "q * 2 < of_int (2 * \<lfloor>q\<rfloor> + 2)" using a by simp
  then have hi: "\<lfloor>q * 2\<rfloor> < 2 * \<lfloor>q\<rfloor> + 2" by (simp only: floor_less_iff)
  from lo hi have "\<lfloor>q * 2\<rfloor> = 2 * \<lfloor>q\<rfloor> \<or> \<lfloor>q * 2\<rfloor> = 2 * \<lfloor>q\<rfloor> + 1" by linarith
  then show ?thesis using nn by (simp add: py_int_def)
qed

lemma py_int_half: "0 \<le> k \<Longrightarrow> py_int (of_int k / 2) = k div 2"
proof -
  assume "0 \<le> k"
  then have "(0::rat) \<le> of_int k / 2" by simp
  moreover have "\<lfloor>(of_int k :: rat) / of_int 2\<rfloor> = k div 2"
    by (rule floor_divide_of_int_eq)
  ultimately show ?thesis by (simp add: py_int_def)
qed

lemma analyze_fvcore_no_error:
  assumes "\<not> has_key (analyze_model_fvcore ext n s) ''error''"
  shows "fvcore_try ext n s = Inr (analyze_model_fvcore ext n s)"
  using assms
  by (cases "fvcore_try ext n s")
     (simp_all add: analyze_model_fvcore_def error_record_def has_key_def)

lemma analyze_thop_no_error:
  assumes "\<not> has_key (analyze_model_thop ext n s) ''error''"
  shows "thop_try ext n s = Inr (analyze_model_thop ext n s)"
  using assms
  by (cases "thop_try ext n s")
     (simp_all add: analyze_model_thop_def error_record_def has_key_def)

lemma create_model_fails:
  "create_model ext n = Inl e \<Longrightarrow>
   analyze_model_fvcore ext n s = error_record n e \<and> analyze_model_thop ext n s = error_record n e"
  by (simp add: analyze_model_fvcore_def analyze_model_thop_def fvcore_try_def thop_try_def)

lemma model_eval_fails:
  "create_model ext n = Inr m0 \<Longrightarrow> model_eval ext m0 = Inl e \<Longrightarrow>
   analyze_model_fvcore ext n s = error_record n e \<and> analyze_model_thop ext n s = error_record n e"
  by (simp add: analyze_model_fvcore_def analyze_model_thop_def fvcore_try_def thop_try_def)

lemma torch_rand_fails:
  "create_model ext n = Inr m0 \<Longrightarrow> model_eval ext m0 = Inr m \<Longrightarrow> torch_rand ext s = Inl e \<Longrightarrow>
   analyze_model_fvcore ext n s = error_record n e \<and> analyze_model_thop ext n s = error_record n e"
  by (simp add: analyze_model_fvcore_def analyze_model_thop_def fvcore_try_def thop_try_def)

lemma scenario_write:
  "p \<noteq> ''nodir/out.json'' \<Longrightarrow> write_file (scenario c f m r) p d = Inr ()"
  by (simp add: scenario_def)

lemma scenario_write_nodir:
  "write_file (scenario c f m r) ''nodir/out.json'' d = Inl (FileNotFoundError ''nodir/out.json'')"
  by (simp add: scenario_def)

lemma fvcore_step_fails:
  assumes "create_model ext n = Inl e
      \<or> (create_model ext n = Inr m0 \<and> model_eval ext m0 = Inl e)
      \<or> (create_model ext n = Inr m0 \<and> model_eval ext m0 = Inr m \<and> torch_rand ext s = Inl e)
      \<or> (create_model ext n = Inr m0 \<and> model_eval ext m0 = Inr m \<and> torch_rand ext s = Inr t
          \<and> (model_parameters ext m = Inl e
            \<or> (model_parameters ext m = Inr xs
              \<and> (FlopCountAnalysis ext m t = Inl e
                \<or> (FlopCountAnalysis ext m t = Inr f
                  \<and> (flops_total ext f = Inl e
                    \<or> (flops_total ext f = Inr nf
                      \<and> (flops_by_operator ext f = Inl e
                        \<or> (flops_by_operator ext f = Inr ops
                          \<and> flops_by_module ext f = Inl e)))))))))"
  shows "fvcore_try ext n s = Inl e"
  using assms
  by (elim disjE conjE) (simp_all add: fvcore_try_def)

lemma thop_step_fails:
  assumes "create_model ext n = Inl e
      \<or> (create_model ext n = Inr m0 \<and> model_eval ext m0 = Inl e)
      \<or> (create_model ext n = Inr m0 \<and> model_eval ext m0 = Inr m \<and> torch_rand ext s = Inl e)
      \<or> (create_model ext n = Inr m0 \<and> model_eval ext m0 = Inr m \<and> torch_rand ext s = Inr t
          \<and> (deepcopy ext m = Inl e
            \<or> (deepcopy ext m = Inr mc \<and> thop_profile ext mc t = Inl e)))"
  shows "thop_try ext n s = Inl e"
  using assms
  by (elim disjE conjE) (simp_all add: thop_try_def)

lemma dict_of_pairs_aux:
  "distinct (map fst (acc @ kvs)) \<Longrightarrow>
   foldl (\<lambda>d kv. py_setitem d (fst kv) (snd kv)) acc kvs = acc @ kvs"
proof (induction kvs arbitrary: acc)
  case Nil
  then show ?case by simp
next
  case (Cons kv kvs)
  from Cons.prems have "fst kv \<notin> set (map fst acc)" by auto
  then have "py_setitem acc (fst kv) (snd kv) = acc @ [kv]"
    by (simp add: py_setitem_def)
  moreover from Cons.prems have "distinct (map fst ((acc @ [kv]) @ kvs))" by simp
  ultimately show ?case
    using Cons.IH [of "acc @ [kv]"] by simp
qed

lemma dict_of_pairs_distinct: "distinct (map fst kvs) \<Longrightarrow> dict_of_pairs kvs = kvs"
  using dict_of_pairs_aux [of "[]" kvs] by (simp add: dict_of_pairs_def)

lemma json_round_trip: "keys_distinct v \<Longrightarrow> json_load_document (json_dump v) = v"
proof (induction v)
  case (PList xs)
  then show ?case by (simp add: map_idI)
next
  case (PDict kvs)
  have each: "map_prod id json_load_document (map_prod id json_dump kv) = kv"
    if "kv \<in> set kvs" for kv
  proof -
    obtain k v where kv: "kv = (k, v)" by (cases kv)
    with that PDict.prems have "keys_distinct v" by auto
    moreover from kv have "v \<in> Basic_BNFs.snds kv" by simp
    ultimately have "json_load_document (json_dump v) = v"
      using PDict.IH that by blast
    then show ?thesis by (simp add: kv)
  qed
  have "map (map_prod id json_load_document) (map (map_prod id json_dump) kvs) = kvs"
    by (simp add: map_idI each)
  moreover from PDict.prems have "distinct (map fst kvs)" by simp
  ultimately show ?case
    by (simp add: dict_of_pairs_distinct)
qed simp_all

lemma keys_distinct_counts:
  "distinct (map fst kvs) \<Longrightarrow> keys_distinct (dict_of_counts kvs)"
  by (simp add: dict_of_counts_def comp_def)

lemma keys_distinct_error_record:
  "keys_distinct n \<Longrightarrow> keys_distinct (PDict (error_record n e))"
  by (simp add: error_record_def)

lemma keys_distinct_fvcore:
  assumes "counters_are_dicts ext" and "keys_distinct n"
  shows "keys_distinct (PDict (analyze_model_fvcore ext n s))"
proof (cases "fvcore_try ext n s")
  case (Inl e)
  then show ?thesis
    using keys_distinct_error_record [OF assms(2), of e] by (simp add: analyze_model_fvcore_def)
next
  case (Inr r)
  then obtain xs f nf ops mods where
    o: "flops_by_operator ext f = Inr ops" and md: "flops_by_module ext f = Inr mods"
    and r: "r = [(''model_name'', n), (''total_params'', PInt (sum_list xs)),
          (''total_flops'', PInt nf), (''total_macs'', PInt (nf div 2)),
          (''flops_by_operator'', dict_of_counts ops),
          (''flops_by_module'', dict_of_counts mods)]"
    by (auto elim: fvcore_try_Inr)
  from assms(1) o have "distinct (map fst ops)" unfolding counters_are_dicts_def by blast
  then have ko: "keys_distinct (dict_of_counts ops)" by (rule keys_distinct_counts)
  from assms(1) md have "distinct (map fst mods)" unfolding counters_are_dicts_def by blast
  then have km: "keys_distinct (dict_of_counts mods)" by (rule keys_distinct_counts)
  have "analyze_model_fvcore ext n s = r"
    using Inr by (simp add: analyze_model_fvcore_def)
  then show ?thesis
    using assms(2) ko km by (simp add: r)
qed

lemma keys_distinct_thop:
  assumes "keys_distinct n"
  shows "keys_distinct (PDict (analyze_model_thop ext n s))"
proof (cases "thop_try ext n s")
  case (Inl e)
  then show ?thesis
    using keys_distinct_error_record [OF assms, of e] by (simp add: analyze_model_thop_def)
next
  case (Inr r)
  then obtain macs params where
    r: "r = [(''model_name'', n), (''total_params'', PInt (py_int params)),
          (''total_flops'', PInt (py_int (macs * 2))), (''total_macs'', PInt (py_int macs)),
          (''gflops'', PFloat (macs * 2 / 1000000000)),
          (''gmacs'', PFloat (macs / 1000000000))]"
    by (auto elim: thop_try_Inr)
  have "analyze_model_thop ext n s = r"
    using Inr by (simp add: analyze_model_thop_def)
  then show ?thesis
    using assms by (simp add: r)
qed

lemma scenario_counters: "counters_are_dicts (scenario c f m r)"
  by (simp add: counters_are_dicts_def scenario_def)

section \<open>The claims\<close>

subsection \<open>C1: one record per configured identifier, in order\<close>

text \<open>
  C1, as amended. For a configuration whose \<^verbatim>\<open>models\<close> list holds \<open>N \<ge> 1\<close>
  identifiers, either entry point analyzes the identifiers in order and writes one JSON
  array to the output path; the array has exactly \<open>N\<close> records and the \<open>i\<close>-th
  record's \<^verbatim>\<open>model_name\<close> is the \<open>i\<close>-th identifier. That is so when the output file
  can be opened and written; when it cannot, \<^verbatim>\<open>main\<close> raises what the write raises.
  (With \<open>N = 0\<close> nothing is written: see the counterexample.)
\<close>

theorem report_one_record_per_identifier:
  assumes "parse_input_shape ext (arg_input_shape a) = Inr shape"
    and "load_config ext (arg_config a) = Inr (PDict kvs)"
    and "map_of kvs ''models'' = Some (PList names)"
    and "names \<noteq> []"
  shows "(\<exists>recs. length recs = length names
          \<and> (\<forall>i<length names. subscript (recs ! i) ''model_name'' = Inr (names ! i))
          \<and> (write_file ext (arg_output a) (JArray (map (\<lambda>r. json_dump (PDict r)) recs)) = Inr ()
              \<longrightarrow> main_fvcore ext a =
                    Inr \<lparr>printed = map AnalyzingModel names @ [AnalysisCompleted (arg_output a)],
                         written = [(arg_output a,
                                     JArray (map (\<lambda>r. json_dump (PDict r)) recs))]\<rparr>)
          \<and> (\<forall>e. write_file ext (arg_output a) (JArray (map (\<lambda>r. json_dump (PDict r)) recs))
                    = Inl e
              \<longrightarrow> main_fvcore ext a = Inl e))
       \<and> (\<exists>recs. length recs = length names
          \<and> (\<forall>i<length names. subscript (recs ! i) ''model_name'' = Inr (names ! i))
          \<and> (write_file ext (arg_output a) (JArray (map (\<lambda>r. json_dump (PDict r)) recs)) = Inr ()
              \<longrightarrow> main_thop ext a =
                    Inr \<lparr>printed = map AnalyzingModel names @ [AnalysisCompleted (arg_output a)],
                         written = [(arg_output a,
                                     JArray (map (\<lambda>r. json_dump (PDict r)) recs))]\<rparr>)
          \<and> (\<forall>e. write_file ext (arg_output a) (JArray (map (\<lambda>r. json_dump (PDict r)) recs))
                    = Inl e
              \<longrightarrow> main_thop ext a = Inl e))"
proof (rule conjI)
  let ?recs = "map (\<lambda>n. analyze_model_fvcore ext n shape) names"
  have "length ?recs = length names" by simp
  moreover have "\<forall>i<length names. subscript (?recs ! i) ''model_name'' = Inr (names ! i)"
    by (simp add: analyze_model_fvcore_name)
  moreover have "write_file ext (arg_output a) (JArray (map (\<lambda>r. json_dump (PDict r)) ?recs))
        = Inr ()
      \<longrightarrow> main_fvcore ext a =
            Inr \<lparr>printed = map AnalyzingModel names @ [AnalysisCompleted (arg_output a)],
                 written = [(arg_output a, JArray (map (\<lambda>r. json_dump (PDict r)) ?recs))]\<rparr>"
    unfolding main_fvcore_def by (rule impI) (rule main_with_written [OF assms])
  moreover have "\<forall>e. write_file ext (arg_output a)
                        (JArray (map (\<lambda>r. json_dump (PDict r)) ?recs)) = Inl e
      \<longrightarrow> main_fvcore ext a = Inl e"
    unfolding main_fvcore_def by (intro allI impI) (rule main_with_unwritten [OF assms])
  ultimately show "\<exists>recs. length recs = length names
          \<and> (\<forall>i<length names. subscript (recs ! i) ''model_name'' = Inr (names ! i))
          \<and> (write_file ext (arg_output a) (JArray (map (\<lambda>r. json_dump (PDict r)) recs)) = Inr ()
              \<longrightarrow> main_fvcore ext a =
                    Inr \<lparr>printed = map AnalyzingModel names @ [AnalysisCompleted (arg_output a)],
                         written = [(arg_output a,
                                     JArray (map (\<lambda>r. json_dump (PDict r)) recs))]\<rparr>)
          \<and> (\<forall>e. write_file ext (arg_output a) (JArray (map (\<lambda>r. json_dump (PDict r)) recs))
                    = Inl e
              \<longrightarrow> main_fvcore ext a = Inl e)"
    by (intro exI [of _ ?recs] conjI)
next
  let ?recs = "map (\<lambda>n. analyze_model_thop ext n shape) names"
  have "length ?recs = length names" by simp
  moreover have "\<forall>i<length names. subscript (?recs ! i) ''model_name'' = Inr (names ! i)"
    by (simp add: analyze_model_thop_name)
  moreover have "write_file ext (arg_output a) (JArray (map (\<lambda>r. json_dump (PDict r)) ?recs))
        = Inr ()
      \<longrightarrow> main_thop ext a =
            Inr \<lparr>printed = map AnalyzingModel names @ [AnalysisCompleted (arg_output a)],
                 written = [(arg_output a, JArray (map (\<lambda>r. json_dump (PDict r)) ?recs))]\<rparr>"
    unfolding main_thop_def by (rule impI) (rule main_with_written [OF assms])
  moreover have "\<forall>e. write_file ext (arg_output a)
                        (JArray (map (\<lambda>r. json_dump (PDict r)) ?recs)) = Inl e
      \<longrightarrow> main_thop ext a = Inl e"
    unfolding main_thop_def by (intro allI impI) (rule main_with_unwritten [OF assms])
  ultimately show "\<exists>recs. length recs = length names
          \<and> (\<forall>i<length names. subscript (recs ! i) ''model_name'' = Inr (names ! i))
          \<and> (write_file ext (arg_output a) (JArray (map (\<lambda>r. json_dump (PDict r)) recs)) = Inr ()
              \<longrightarrow> main_thop ext a =
                    Inr \<lparr>printed = map AnalyzingModel names @ [AnalysisCompleted (arg_output a)],
                         written = [(arg_output a,
                                     JArray (map (\<lambda>r. json_dump (PDict r)) recs))]\<rparr>)
          \<and> (\<forall>e. write_file ext (arg_output a) (JArray (map (\<lambda>r. json_dump (PDict r)) recs))
                    = Inl e
              \<longrightarrow> main_thop ext a = Inl e)"
    by (intro exI [of _ ?recs] conjI)
qed

text \<open>
  The theorem at the configuration \<^verbatim>\<open>{models: ["a", "b"]}\<close>, with an output file that
  can be written: both reports are written.
\<close>

theorem report_one_record_per_identifier_witness:
  "parse_input_shape (scenario two_models 2000000000 1000000000 []) (arg_input_shape demo_args)
     = Inr [1, 3, 224, 224]
   \<and> load_config (scenario two_models 2000000000 1000000000 []) (arg_config demo_args)
     = Inr (PDict [(''models'', PList [PStr ''a'', PStr ''b''])])
   \<and> map_of [(''models'', PList [PStr ''a'', PStr ''b''])] ''models''
     = Some (PList [PStr ''a'', PStr ''b''])
   \<and> [PStr ''a'', PStr ''b''] \<noteq> []
   \<and> (\<exists>recs. length recs = length [PStr ''a'', PStr ''b'']
        \<and> (\<forall>i<length [PStr ''a'', PStr ''b''].
              subscript (recs ! i) ''model_name'' = Inr ([PStr ''a'', PStr ''b''] ! i))
        \<and> main_fvcore (scenario two_models 2000000000 1000000000 []) demo_args =
            Inr \<lparr>printed = map AnalyzingModel [PStr ''a'', PStr ''b'']
                            @ [AnalysisCompleted (arg_output demo_args)],
                 written = [(arg_output demo_args,
                             JArray (map (\<lambda>r. json_dump (PDict r)) recs))]\<rparr>)
   \<and> (\<exists>recs. length recs = length [PStr ''a'', PStr ''b'']
        \<and> (\<forall>i<length [PStr ''a'', PStr ''b''].
              subscript (recs ! i) ''model_name'' = Inr ([PStr ''a'', PStr ''b''] ! i))
        \<and> main_thop (scenario two_models 2000000000 1000000000 []) demo_args =
            Inr \<lparr>printed = map AnalyzingModel [PStr ''a'', PStr ''b'']
                            @ [AnalysisCompleted (arg_output demo_args)],
                 written = [(arg_output demo_args,
                             JArray (map (\<lambda>r. json_dump (PDict r)) recs))]\<rparr>)"
proof -
  let ?ext = "scenario two_models 2000000000 1000000000 []"
  have h2: "load_config ?ext (arg_config demo_args)
              = Inr (PDict [(''models'', PList [PStr ''a'', PStr ''b''])])"
    by (simp add: scenario_load two_models_def)
  have h3: "map_of [(''models'', PList [PStr ''a'', PStr ''b''])] ''models''
              = Some (PList [PStr ''a'', PStr ''b''])"
    by simp
  have h4: "[PStr ''a'', PStr ''b''] \<noteq> []"
    by simp
  have w: "write_file ?ext (arg_output demo_args) d = Inr ()" for d
    by (rule scenario_write) (simp add: demo_args_def)
  show ?thesis
    using report_one_record_per_identifier [OF scenario_parse h2 h3 h4] scenario_parse h2 h3 h4 w
    by blast
qed

text \<open>
  The claim as stated fails at \<open>N = 0\<close>: with \<^verbatim>\<open>{models: []}\<close> neither entry point
  writes a JSON array with zero records; nothing is written at all. It fails also when
  the output path is in a directory that does not exist: \<^verbatim>\<open>main\<close> raises after the
  analyses, and no report is produced.
\<close>

theorem empty_models_no_report:
  "main_fvcore (scenario no_models 2000000000 1000000000 []) demo_args
     = Inr \<lparr>printed = [Line ''No models specified in the configuration file.''], written = []\<rparr>
   \<and> main_thop (scenario no_models 2000000000 1000000000 []) demo_args
     = Inr \<lparr>printed = [Line ''No models specified in the configuration file.''], written = []\<rparr>
   \<and> main_fvcore (scenario two_models 2000000000 1000000000 []) nodir_args
     = Inl (FileNotFoundError ''nodir/out.json'')
   \<and> main_thop (scenario two_models 2000000000 1000000000 []) nodir_args
     = Inl (FileNotFoundError ''nodir/out.json'')"
  by (simp add: main_fvcore_def main_thop_def main_with_def scenario_def demo_args_def
      nodir_args_def load_config_def no_models_run_def no_models_def two_models_def
      analyze_each_eq Let_def)

subsection \<open>C2: a record has either the error or the metrics\<close>

text \<open>
  C2. Every record returned by \<^verbatim>\<open>analyze_model\<close>, in either variant, satisfies exactly
  one of: the \<^verbatim>\<open>error\<close> field is present and no numeric metric field is; or the
  \<^verbatim>\<open>error\<close> field is absent and all the variant's metric fields are present and
  non-negative. The counts themselves come from the external libraries, which are taken
  to return non-negative counts.
\<close>

theorem record_error_xor_metrics:
  assumes "counts_nonneg ext"
  shows "((error_only metric_fields_fvcore (analyze_model_fvcore ext n s)
           \<and> \<not> metrics_only metric_fields_fvcore (analyze_model_fvcore ext n s))
        \<or> (metrics_only metric_fields_fvcore (analyze_model_fvcore ext n s)
           \<and> \<not> error_only metric_fields_fvcore (analyze_model_fvcore ext n s)))
       \<and> ((error_only metric_fields_thop (analyze_model_thop ext n s)
           \<and> \<not> metrics_only metric_fields_thop (analyze_model_thop ext n s))
        \<or> (metrics_only metric_fields_thop (analyze_model_thop ext n s)
           \<and> \<not> error_only metric_fields_thop (analyze_model_thop ext n s)))"
proof (rule conjI)
  show "(error_only metric_fields_fvcore (analyze_model_fvcore ext n s)
           \<and> \<not> metrics_only metric_fields_fvcore (analyze_model_fvcore ext n s))
        \<or> (metrics_only metric_fields_fvcore (analyze_model_fvcore ext n s)
           \<and> \<not> error_only metric_fields_fvcore (analyze_model_fvcore ext n s))"
  proof (cases "fvcore_try ext n s")
    case (Inl e)
    then have "analyze_model_fvcore ext n s = error_record n e"
      by (simp add: analyze_model_fvcore_def)
    then show ?thesis
      using error_record_error_only [of metric_fields_fvcore n e]
      by (simp add: metric_fields_fvcore_def)
  next
    case (Inr r)
    then have "analyze_model_fvcore ext n s = r"
      by (simp add: analyze_model_fvcore_def)
    then show ?thesis
      using fvcore_success_metrics_only [OF assms Inr] by simp
  qed
next
  show "(error_only metric_fields_thop (analyze_model_thop ext n s)
           \<and> \<not> metrics_only metric_fields_thop (analyze_model_thop ext n s))
        \<or> (metrics_only metric_fields_thop (analyze_model_thop ext n s)
           \<and> \<not> error_only metric_fields_thop (analyze_model_thop ext n s))"
  proof (cases "thop_try ext n s")
    case (Inl e)
    then have "analyze_model_thop ext n s = error_record n e"
      by (simp add: analyze_model_thop_def)
    then show ?thesis
      using error_record_error_only [of metric_fields_thop n e]
      by (simp add: metric_fields_thop_def)
  next
    case (Inr r)
    then have "analyze_model_thop ext n s = r"
      by (simp add: analyze_model_thop_def)
    then show ?thesis
      using thop_success_metrics_only [OF assms Inr] by simp
  qed
qed

text \<open>The theorem at the model \<^verbatim>\<open>a\<close>, which resolves, and \<^verbatim>\<open>b\<close>, which does not.\<close>

theorem record_error_xor_metrics_witness:
  "counts_nonneg (scenario two_models 2000000000 1000000000 [])
   \<and> metrics_only metric_fields_fvcore
        (analyze_model_fvcore (scenario two_models 2000000000 1000000000 []) (PStr ''a'') [1, 3, 224, 224])
   \<and> error_only metric_fields_fvcore
        (analyze_model_fvcore (scenario two_models 2000000000 1000000000 []) (PStr ''b'') [1, 3, 224, 224])
   \<and> metrics_only metric_fields_thop
        (analyze_model_thop (scenario two_models 2000000000 1000000000 []) (PStr ''a'') [1, 3, 224, 224])
   \<and> error_only metric_fields_thop
        (analyze_model_thop (scenario two_models 2000000000 1000000000 []) (PStr ''b'') [1, 3, 224, 224])"
proof -
  let ?ext = "scenario two_models 2000000000 1000000000 []"
  have c: "counts_nonneg ?ext"
    by (rule scenario_counts_nonneg) simp_all
  have a1: "\<not> has_key (analyze_model_fvcore ?ext (PStr ''a'') [1, 3, 224, 224]) ''error''"
    by (simp add: analyze_model_fvcore_def fvcore_try_def scenario_def has_key_def)
  have a2: "\<not> has_key (analyze_model_thop ?ext (PStr ''a'') [1, 3, 224, 224]) ''error''"
    by (simp add: analyze_model_thop_def thop_try_def scenario_def has_key_def)
  have b1: "has_key (analyze_model_fvcore ?ext (PStr ''b'') [1, 3, 224, 224]) ''error''"
    by (simp add: analyze_model_fvcore_def fvcore_try_def scenario_def has_key_def
        error_record_def)
  have b2: "has_key (analyze_model_thop ?ext (PStr ''b'') [1, 3, 224, 224]) ''error''"
    by (simp add: analyze_model_thop_def thop_try_def scenario_def has_key_def
        error_record_def)
  show ?thesis
    using c a1 a2 b1 b2
      record_error_xor_metrics [OF c, of "PStr ''a''" "[1, 3, 224, 224]"]
      record_error_xor_metrics [OF c, of "PStr ''b''" "[1, 3, 224, 224]"]
    unfolding error_only_def metrics_only_def
    by blast
qed

subsection \<open>C3: a failed analysis is a record, and the batch goes on\<close>

text \<open>
  C3. If an exception is raised during the analysis of one model, in whichever step
  (model construction, \<^verbatim>\<open>eval\<close>, input generation, parameter counting, operation
  counting and its breakdowns in \<^verbatim>\<open>main.py\<close>; model construction, \<^verbatim>\<open>eval\<close>, input
  generation, the copy and the profiling in \<^verbatim>\<open>model_analyzer.py\<close>),
  \<^verbatim>\<open>analyze_model\<close> returns a record with only the \<^verbatim>\<open>model_name\<close> and the message
  \<^verbatim>\<open>str(e)\<close>. The batch goes on: every identifier is announced and analyzed, and the
  report handed to the file has one record per identifier, the error record in that
  model's place. The report is written whenever the file itself can be written: only
  the write can make \<^verbatim>\<open>main\<close> raise after the loop, never a model.
\<close>

theorem analysis_failure_is_recorded:
  assumes "parse_input_shape ext (arg_input_shape a) = Inr shape"
    and "load_config ext (arg_config a) = Inr (PDict kvs)"
    and "map_of kvs ''models'' = Some (PList names)"
    and "i < length names"
  shows "(create_model ext (names ! i) = Inl e
      \<or> (create_model ext (names ! i) = Inr m0 \<and> model_eval ext m0 = Inl e)
      \<or> (create_model ext (names ! i) = Inr m0 \<and> model_eval ext m0 = Inr m
          \<and> torch_rand ext shape = Inl e)
      \<or> (create_model ext (names ! i) = Inr m0 \<and> model_eval ext m0 = Inr m
          \<and> torch_rand ext shape = Inr t
          \<and> (model_parameters ext m = Inl e
            \<or> (model_parameters ext m = Inr xs
              \<and> (FlopCountAnalysis ext m t = Inl e
                \<or> (FlopCountAnalysis ext m t = Inr f
                  \<and> (flops_total ext f = Inl e
                    \<or> (flops_total ext f = Inr nf
                      \<and> (flops_by_operator ext f = Inl e
                        \<or> (flops_by_operator ext f = Inr ops
                          \<and> flops_by_module ext f = Inl e)))))))))
    \<longrightarrow> analyze_model_fvcore ext (names ! i) shape
          = [(''model_name'', names ! i), (''error'', PStr (str_exn e))]
      \<and> (\<exists>recs. length recs = length names
            \<and> recs ! i = [(''model_name'', names ! i), (''error'', PStr (str_exn e))]
            \<and> (\<forall>j<length names. recs ! j = analyze_model_fvcore ext (names ! j) shape)
            \<and> (write_file ext (arg_output a) (JArray (map (\<lambda>r. json_dump (PDict r)) recs))
                  = Inr ()
                \<longrightarrow> main_fvcore ext a =
                      Inr \<lparr>printed = map AnalyzingModel names
                                      @ [AnalysisCompleted (arg_output a)],
                           written = [(arg_output a,
                                       JArray (map (\<lambda>r. json_dump (PDict r)) recs))]\<rparr>)
            \<and> (\<forall>w. write_file ext (arg_output a) (JArray (map (\<lambda>r. json_dump (PDict r)) recs))
                      = Inl w
                \<longrightarrow> main_fvcore ext a = Inl w)))
   \<and> (create_model ext (names ! i) = Inl e
      \<or> (create_model ext (names ! i) = Inr m0 \<and> model_eval ext m0 = Inl e)
      \<or> (create_model ext (names ! i) = Inr m0 \<and> model_eval ext m0 = Inr m
          \<and> torch_rand ext shape = Inl e)
      \<or> (create_model ext (names ! i) = Inr m0 \<and> model_eval ext m0 = Inr m
          \<and> torch_rand ext shape = Inr t
          \<and> (deepcopy ext m = Inl e
            \<or> (deepcopy ext m = Inr mc \<and> thop_profile ext mc t = Inl e)))
    \<longrightarrow> analyze_model_thop ext (names ! i) shape
          = [(''model_name'', names ! i), (''error'', PStr (str_exn e))]
      \<and> (\<exists>recs. length recs = length names
            \<and> recs ! i = [(''model_name'', names ! i), (''error'', PStr (str_exn e))]
            \<and> (\<forall>j<length names. recs ! j = analyze_model_thop ext (names ! j) shape)
            \<and> (write_file ext (arg_output a) (JArray (map (\<lambda>r. json_dump (PDict r)) recs))
                  = Inr ()
                \<longrightarrow> main_thop ext a =
                      Inr \<lparr>printed = map AnalyzingModel names
                                      @ [AnalysisCompleted (arg_output a)],
                           written = [(arg_output a,
                                       JArray (map (\<lambda>r. json_dump (PDict r)) recs))]\<rparr>)
            \<and> (\<forall>w. write_file ext (arg_output a) (JArray (map (\<lambda>r. json_dump (PDict r)) recs))
                      = Inl w
                \<longrightarrow> main_thop ext a = Inl w)))"
proof (intro conjI impI)
  from assms(4) have ne: "names \<noteq> []" by auto
  note ctx = assms(1-3) ne
  {
    assume "create_model ext (names ! i) = Inl e
      \<or> (create_model ext (names ! i) = Inr m0 \<and> model_eval ext m0 = Inl e)
      \<or> (create_model ext (names ! i) = Inr m0 \<and> model_eval ext m0 = Inr m
          \<and> torch_rand ext shape = Inl e)
      \<or> (create_model ext (names ! i) = Inr m0 \<and> model_eval ext m0 = Inr m
          \<and> torch_rand ext shape = Inr t
          \<and> (model_parameters ext m = Inl e
            \<or> (model_parameters ext m = Inr xs
              \<and> (FlopCountAnalysis ext m t = Inl e
                \<or> (FlopCountAnalysis ext m t = Inr f
                  \<and> (flops_total ext f = Inl e
                    \<or> (flops_total ext f = Inr nf
                      \<and> (flops_by_operator ext f = Inl e
                        \<or> (flops_by_operator ext f = Inr ops
                          \<and> flops_by_module ext f = Inl e)))))))))"
    then have "fvcore_try ext (names ! i) shape = Inl e"
      by (rule fvcore_step_fails)
    then have rec: "analyze_model_fvcore ext (names ! i) shape
          = [(''model_name'', names ! i), (''error'', PStr (str_exn e))]"
      by (simp add: analyze_model_fvcore_def error_record_def)
    then show "analyze_model_fvcore ext (names ! i) shape
          = [(''model_name'', names ! i), (''error'', PStr (str_exn e))]" .
    let ?recs = "map (\<lambda>n. analyze_model_fvcore ext n shape) names"
    have "length ?recs = length names" by simp
    moreover have "?recs ! i = [(''model_name'', names ! i), (''error'', PStr (str_exn e))]"
      using assms(4) rec by simp
    moreover have "\<forall>j<length names. ?recs ! j = analyze_model_fvcore ext (names ! j) shape"
      by simp
    moreover have "write_file ext (arg_output a) (JArray (map (\<lambda>r. json_dump (PDict r)) ?recs))
          = Inr ()
        \<longrightarrow> main_fvcore ext a =
              Inr \<lparr>printed = map AnalyzingModel names @ [AnalysisCompleted (arg_output a)],
                   written = [(arg_output a, JArray (map (\<lambda>r. json_dump (PDict r)) ?recs))]\<rparr>"
      unfolding main_fvcore_def by (rule impI) (rule main_with_written [OF ctx])
    moreover have "\<forall>w. write_file ext (arg_output a)
                          (JArray (map (\<lambda>r. json_dump (PDict r)) ?recs)) = Inl w
        \<longrightarrow> main_fvcore ext a = Inl w"
      unfolding main_fvcore_def by (intro allI impI) (rule main_with_unwritten [OF ctx])
    ultimately show "\<exists>recs. length recs = length names
            \<and> recs ! i = [(''model_name'', names ! i), (''error'', PStr (str_exn e))]
            \<and> (\<forall>j<length names. recs ! j = analyze_model_fvcore ext (names ! j) shape)
            \<and> (write_file ext (arg_output a) (JArray (map (\<lambda>r. json_dump (PDict r)) recs))
                  = Inr ()
                \<longrightarrow> main_fvcore ext a =
                      Inr \<lparr>printed = map AnalyzingModel names
                                      @ [AnalysisCompleted (arg_output a)],
                           written = [(arg_output a,
                                       JArray (map (\<lambda>r. json_dump (PDict r)) recs))]\<rparr>)
            \<and> (\<forall>w. write_file ext (arg_output a) (JArray (map (\<lambda>r. json_dump (PDict r)) recs))
                      = Inl w
                \<longrightarrow> main_fvcore ext a = Inl w)"
      by (intro exI [of _ ?recs] conjI)
  }
  {
    assume "create_model ext (names ! i) = Inl e
      \<or> (create_model ext (names ! i) = Inr m0 \<and> model_eval ext m0 = Inl e)
      \<or> (create_model ext (names ! i) = Inr m0 \<and> model_eval ext m0 = Inr m
          \<and> torch_rand ext shape = Inl e)
      \<or> (create_model ext (names ! i) = Inr m0 \<and> model_eval ext m0 = Inr m
          \<and> torch_rand ext shape = Inr t
          \<and> (deepcopy ext m = Inl e
            \<or> (deepcopy ext m = Inr mc \<and> thop_profile ext mc t = Inl e)))"
    then have "thop_try ext (names ! i) shape = Inl e"
      by (rule thop_step_fails)
    then have rec: "analyze_model_thop ext (names ! i) shape
          = [(''model_name'', names ! i), (''error'', PStr (str_exn e))]"
      by (simp add: analyze_model_thop_def error_record_def)
    then show "analyze_model_thop ext (names ! i) shape
          = [(''model_name'', names ! i), (''error'', PStr (str_exn e))]" .
    let ?recs = "map (\<lambda>n. analyze_model_thop ext n shape) names"
    have "length ?recs = length names" by simp
    moreover have "?recs ! i = [(''model_name'', names ! i), (''error'', PStr (str_exn e))]"
      using assms(4) rec by simp
    moreover have "\<forall>j<length names. ?recs ! j = analyze_model_thop ext (names ! j) shape"
      by simp
    moreover have "write_file ext (arg_output a) (JArray (map (\<lambda>r. json_dump (PDict r)) ?recs))
          = Inr ()
        \<longrightarrow> main_thop ext a =
              Inr \<lparr>printed = map AnalyzingModel names @ [AnalysisCompleted (arg_output a)],
                   written = [(arg_output a, JArray (map (\<lambda>r. json_dump (PDict r)) ?recs))]\<rparr>"
      unfolding main_thop_def by (rule impI) (rule main_with_written [OF ctx])
    moreover have "\<forall>w. write_file ext (arg_output a)
                          (JArray (map (\<lambda>r. json_dump (PDict r)) ?recs)) = Inl w
        \<longrightarrow> main_thop ext a = Inl w"
      unfolding main_thop_def by (intro allI impI) (rule main_with_unwritten [OF ctx])
    ultimately show "\<exists>recs. length recs = length names
            \<and> recs ! i = [(''model_name'', names ! i), (''error'', PStr (str_exn e))]
            \<and> (\<forall>j<length names. recs ! j = analyze_model_thop ext (names ! j) shape)
            \<and> (write_file ext (arg_output a) (JArray (map (\<lambda>r. json_dump (PDict r)) recs))
                  = Inr ()
                \<longrightarrow> main_thop ext a =
                      Inr \<lparr>printed = map AnalyzingModel names
                                      @ [AnalysisCompleted (arg_output a)],
                           written = [(arg_output a,
                                       JArray (map (\<lambda>r. json_dump (PDict r)) recs))]\<rparr>)
            \<and> (\<forall>w. write_file ext (arg_output a) (JArray (map (\<lambda>r. json_dump (PDict r)) recs))
                      = Inl w
                \<longrightarrow> main_thop ext a = Inl w)"
      by (intro exI [of _ ?recs] conjI)
  }
qed

text \<open>
  The theorem at \<^verbatim>\<open>{models: ["a", "b"]}\<close> with counters that raise: on \<^verbatim>\<open>a\<close>
  (index 0) fvcore raises when the total is taken and thop while it profiles; \<^verbatim>\<open>b\<close>
  (index 1) is unknown to the registry. Both reports are written all the same.
\<close>

theorem analysis_failure_is_recorded_witness:
  "(0::nat) < length [PStr ''a'', PStr ''b'']
   \<and> flops_total counting_fails () = Inl (RuntimeError ''unsupported operator'')
   \<and> thop_profile counting_fails () () = Inl (RuntimeError ''out of memory'')
   \<and> create_model counting_fails ([PStr ''a'', PStr ''b''] ! 1)
       = Inl (RuntimeError ''Unknown model'')
   \<and> analyze_model_fvcore counting_fails ([PStr ''a'', PStr ''b''] ! 0) [1, 3, 224, 224]
       = [(''model_name'', [PStr ''a'', PStr ''b''] ! 0),
          (''error'', PStr (str_exn (RuntimeError ''unsupported operator'')))]
   \<and> (\<exists>recs. length recs = length [PStr ''a'', PStr ''b'']
        \<and> recs ! 0 = [(''model_name'', [PStr ''a'', PStr ''b''] ! 0),
                       (''error'', PStr (str_exn (RuntimeError ''unsupported operator'')))]
        \<and> main_fvcore counting_fails demo_args =
            Inr \<lparr>printed = map AnalyzingModel [PStr ''a'', PStr ''b'']
                            @ [AnalysisCompleted (arg_output demo_args)],
                 written = [(arg_output demo_args,
                             JArray (map (\<lambda>r. json_dump (PDict r)) recs))]\<rparr>)
   \<and> analyze_model_thop counting_fails ([PStr ''a'', PStr ''b''] ! 0) [1, 3, 224, 224]
       = [(''model_name'', [PStr ''a'', PStr ''b''] ! 0),
          (''error'', PStr (str_exn (RuntimeError ''out of memory'')))]
   \<and> (\<exists>recs. length recs = length [PStr ''a'', PStr ''b'']
        \<and> recs ! 0 = [(''model_name'', [PStr ''a'', PStr ''b''] ! 0),
                       (''error'', PStr (str_exn (RuntimeError ''out of memory'')))]
        \<and> main_thop counting_fails demo_args =
            Inr \<lparr>printed = map AnalyzingModel [PStr ''a'', PStr ''b'']
                            @ [AnalysisCompleted (arg_output demo_args)],
                 written = [(arg_output demo_args,
                             JArray (map (\<lambda>r. json_dump (PDict r)) recs))]\<rparr>)
   \<and> analyze_model_fvcore counting_fails ([PStr ''a'', PStr ''b''] ! 1) [1, 3, 224, 224]
       = [(''model_name'', [PStr ''a'', PStr ''b''] ! 1),
          (''error'', PStr (str_exn (RuntimeError ''Unknown model'')))]
   \<and> analyze_model_thop counting_fails ([PStr ''a'', PStr ''b''] ! 1) [1, 3, 224, 224]
       = [(''model_name'', [PStr ''a'', PStr ''b''] ! 1),
          (''error'', PStr (str_exn (RuntimeError ''Unknown model'')))]"
proof -
  have p: "parse_input_shape counting_fails (arg_input_shape demo_args) = Inr [1, 3, 224, 224]"
    by (simp add: counting_fails_def scenario_def)
  have l: "load_config counting_fails (arg_config demo_args)
             = Inr (PDict [(''models'', PList [PStr ''a'', PStr ''b''])])"
    by (simp add: counting_fails_def scenario_def load_config_def two_models_def)
  have k: "map_of [(''models'', PList [PStr ''a'', PStr ''b''])] ''models''
             = Some (PList [PStr ''a'', PStr ''b''])"
    by simp
  have i0: "(0::nat) < length [PStr ''a'', PStr ''b'']" and i1: "(1::nat) < length [PStr ''a'', PStr ''b'']"
    by simp_all
  have w: "write_file counting_fails (arg_output demo_args) d = Inr ()" for d
    by (simp add: counting_fails_def scenario_def demo_args_def)
  have ft: "flops_total counting_fails () = Inl (RuntimeError ''unsupported operator'')"
    and tp: "thop_profile counting_fails () () = Inl (RuntimeError ''out of memory'')"
    and cb: "create_model counting_fails ([PStr ''a'', PStr ''b''] ! 1)
               = Inl (RuntimeError ''Unknown model'')"
    by (simp_all add: counting_fails_def scenario_def)
  have steps: "create_model counting_fails ([PStr ''a'', PStr ''b''] ! 0) = Inr ()"
    "model_eval counting_fails () = Inr ()"
    "torch_rand counting_fails [1, 3, 224, 224] = Inr ()"
    "model_parameters counting_fails () = Inr [600000, 400000]"
    "FlopCountAnalysis counting_fails () () = Inr ()"
    "deepcopy counting_fails () = Inr ()"
    by (simp_all add: counting_fails_def scenario_def)
  note at_a = analysis_failure_is_recorded
    [OF p l k i0, where ?m0.0 = "()" and m = "()" and t = "()" and xs = "[600000, 400000]"
       and f = "()" and nf = 0 and ops = "[]" and mc = "()"]
  have fa: "analyze_model_fvcore counting_fails ([PStr ''a'', PStr ''b''] ! 0) [1, 3, 224, 224]
       = [(''model_name'', [PStr ''a'', PStr ''b''] ! 0),
          (''error'', PStr (str_exn (RuntimeError ''unsupported operator'')))]
     \<and> (\<exists>recs. length recs = length [PStr ''a'', PStr ''b'']
        \<and> recs ! 0 = [(''model_name'', [PStr ''a'', PStr ''b''] ! 0),
                       (''error'', PStr (str_exn (RuntimeError ''unsupported operator'')))]
        \<and> main_fvcore counting_fails demo_args =
            Inr \<lparr>printed = map AnalyzingModel [PStr ''a'', PStr ''b'']
                            @ [AnalysisCompleted (arg_output demo_args)],
                 written = [(arg_output demo_args,
                             JArray (map (\<lambda>r. json_dump (PDict r)) recs))]\<rparr>)"
    using at_a [where e = "RuntimeError ''unsupported operator''", THEN conjunct1] steps ft w
    by blast
  have ta: "analyze_model_thop counting_fails ([PStr ''a'', PStr ''b''] ! 0) [1, 3, 224, 224]
       = [(''model_name'', [PStr ''a'', PStr ''b''] ! 0),
          (''error'', PStr (str_exn (RuntimeError ''out of memory'')))]
     \<and> (\<exists>recs. length recs = length [PStr ''a'', PStr ''b'']
        \<and> recs ! 0 = [(''model_name'', [PStr ''a'', PStr ''b''] ! 0),
                       (''error'', PStr (str_exn (RuntimeError ''out of memory'')))]
        \<and> main_thop counting_fails demo_args =
            Inr \<lparr>printed = map AnalyzingModel [PStr ''a'', PStr ''b'']
                            @ [AnalysisCompleted (arg_output demo_args)],
                 written = [(arg_output demo_args,
                             JArray (map (\<lambda>r. json_dump (PDict r)) recs))]\<rparr>)"
    using at_a [where e = "RuntimeError ''out of memory''", THEN conjunct2] steps tp w
    by blast
  note at_b = analysis_failure_is_recorded
    [OF p l k i1, where e = "RuntimeError ''Unknown model''" and ?m0.0 = "()" and m = "()"
       and t = "()" and xs = "[]" and f = "()" and nf = 0 and ops = "[]" and mc = "()"]
  have fb: "analyze_model_fvcore counting_fails ([PStr ''a'', PStr ''b''] ! 1) [1, 3, 224, 224]
       = [(''model_name'', [PStr ''a'', PStr ''b''] ! 1),
          (''error'', PStr (str_exn (RuntimeError ''Unknown model'')))]"
    using at_b [THEN conjunct1] cb by blast
  have tb: "analyze_model_thop counting_fails ([PStr ''a'', PStr ''b''] ! 1) [1, 3, 224, 224]
       = [(''model_name'', [PStr ''a'', PStr ''b''] ! 1),
          (''error'', PStr (str_exn (RuntimeError ''Unknown model'')))]"
    using at_b [THEN conjunct2] cb by blast
  show ?thesis
    by (intro conjI i0 ft tp cb conjunct1 [OF fa] conjunct2 [OF fa]
        conjunct1 [OF ta] conjunct2 [OF ta] fb tb)
qed

subsection \<open>C4: an empty models list\<close>

text \<open>
  C4. If the configuration's \<^verbatim>\<open>models\<close> list is empty, both batch entry points print
  the no-models message, write no output file and return normally.
\<close>

theorem empty_models_list_clean_exit:
  assumes "parse_input_shape ext (arg_input_shape a) = Inr shape"
    and "load_config ext (arg_config a) = Inr (PDict kvs)"
    and "map_of kvs ''models'' = Some (PList [])"
  shows "main_fvcore ext a =
           Inr \<lparr>printed = [Line ''No models specified in the configuration file.''],
                written = []\<rparr>
       \<and> main_thop ext a =
           Inr \<lparr>printed = [Line ''No models specified in the configuration file.''],
                written = []\<rparr>"
proof -
  have g: "config_get_models (PDict kvs) = Inr (PList [])"
    using assms(3) by simp
  have "main_with analyze ext a = Inr no_models_run" for analyze
    by (rule main_with_falsy [OF assms(1) assms(2) g]) simp
  then show ?thesis
    by (simp add: main_fvcore_def main_thop_def no_models_run_def)
qed

text \<open>The theorem at \<^verbatim>\<open>{models: []}\<close>.\<close>

theorem empty_models_list_clean_exit_witness:
  "parse_input_shape (scenario no_models 2000000000 1000000000 []) (arg_input_shape demo_args)
     = Inr [1, 3, 224, 224]
   \<and> load_config (scenario no_models 2000000000 1000000000 []) (arg_config demo_args)
     = Inr (PDict [(''models'', PList [])])
   \<and> map_of [(''models'', PList [])] ''models'' = Some (PList [])
   \<and> main_fvcore (scenario no_models 2000000000 1000000000 []) demo_args =
        Inr \<lparr>printed = [Line ''No models specified in the configuration file.''],
             written = []\<rparr>
   \<and> main_thop (scenario no_models 2000000000 1000000000 []) demo_args =
        Inr \<lparr>printed = [Line ''No models specified in the configuration file.''],
             written = []\<rparr>"
proof -
  have h2: "load_config (scenario no_models 2000000000 1000000000 []) (arg_config demo_args)
              = Inr (PDict [(''models'', PList [])])"
    by (simp add: scenario_load no_models_def)
  have h3: "map_of [(''models'', PList [])] ''models'' = Some (PList [])"
    by simp
  show ?thesis
    using empty_models_list_clean_exit [OF scenario_parse h2 h3] scenario_parse h2 h3
    by blast
qed

subsection \<open>C5: the renderer drops error records\<close>

text \<open>
  C5. The renderer loads the JSON report and keeps exactly the records that have no
  \<^verbatim>\<open>error\<close> field, in order; if none is left it prints the no-valid-models message
  and returns without saving any image, neither the grid nor an individual one.
\<close>

theorem renderer_filters_error_records:
  "(json_load ext p = Inr data \<longrightarrow>
      load_model_analysis ext p = Inr (filter (\<lambda>m. \<not> has_key m ''error'') data))
   \<and> (json_load ext ''caformer/model_analysis.json'' = Inr data
        \<and> filter (\<lambda>m. \<not> has_key m ''error'') data = [] \<longrightarrow>
      plot_main ext =
        Inr \<lparr>plot_printed = [''No valid models found in the JSON file.''], saved = []\<rparr>)"
  by (simp add: load_model_analysis_def plot_main_def)

text \<open>
  The theorem at the report of the scenario, where the record of \<^verbatim>\<open>a\<close> is kept, and at
  a report that holds only the error record of \<^verbatim>\<open>b\<close>.
\<close>

theorem renderer_filters_error_records_witness:
  "json_load (scenario two_models 2000000000 1000000000 report_ab) ''caformer/model_analysis.json''
     = Inr report_ab
   \<and> load_model_analysis (scenario two_models 2000000000 1000000000 report_ab)
        ''caformer/model_analysis.json''
     = Inr [[(''model_name'', PStr ''a''), (''total_params'', PInt 1000000),
             (''total_flops'', PInt 2000000000), (''total_macs'', PInt 1000000000),
             (''gflops'', PFloat 2), (''gmacs'', PFloat 1)]]
   \<and> json_load (scenario two_models 2000000000 1000000000 report_b) ''caformer/model_analysis.json''
     = Inr report_b
   \<and> (filter (\<lambda>m. \<not> has_key m ''error'')) report_b = []
   \<and> plot_main (scenario two_models 2000000000 1000000000 report_b) =
        Inr \<lparr>plot_printed = [''No valid models found in the JSON file.''], saved = []\<rparr>"
proof -
  have ja: "json_load (scenario two_models 2000000000 1000000000 report_ab)
              ''caformer/model_analysis.json'' = Inr report_ab"
    by (simp add: scenario_def)
  have fa: "(filter (\<lambda>m. \<not> has_key m ''error'')) report_ab
              = [[(''model_name'', PStr ''a''), (''total_params'', PInt 1000000),
                  (''total_flops'', PInt 2000000000), (''total_macs'', PInt 1000000000),
                  (''gflops'', PFloat 2), (''gmacs'', PFloat 1)]]"
    by (simp add: report_ab_def has_key_def)
  have jb: "json_load (scenario two_models 2000000000 1000000000 report_b)
              ''caformer/model_analysis.json'' = Inr report_b"
    by (simp add: scenario_def)
  have fb: "(filter (\<lambda>m. \<not> has_key m ''error'')) report_b = []"
    by (simp add: report_b_def has_key_def)
  show ?thesis
    using renderer_filters_error_records
            [of "scenario two_models 2000000000 1000000000 report_ab"
                "''caformer/model_analysis.json''" report_ab]
          renderer_filters_error_records
            [of "scenario two_models 2000000000 1000000000 report_b"
                "''caformer/model_analysis.json''" report_b]
          ja fa jb fb
    by simp
qed

subsection \<open>C6: MACs against FLOPs\<close>

text \<open>
  C6, as amended. For a successfully analyzed model, the fvcore variant emits
  \<^verbatim>\<open>total_macs = total_flops // 2\<close>: \<^verbatim>\<open>total_flops\<close> is twice \<^verbatim>\<open>total_macs\<close> when it
  is even and twice \<^verbatim>\<open>total_macs\<close> plus one when it is odd. The thop variant emits
  \<^verbatim>\<open>total_flops = int(macs * 2)\<close> and \<^verbatim>\<open>total_macs = int(macs)\<close>, with
  \<^verbatim>\<open>gflops = macs * 2 / 1E9\<close> and \<^verbatim>\<open>gmacs = macs / 1E9\<close>: \<^verbatim>\<open>total_flops\<close> is twice
  \<^verbatim>\<open>total_macs\<close> when thop's count is a whole number, and at most one more for any
  non-negative count. For a model with 2000000000 operations the record has
  \<^verbatim>\<open>total_macs = 1000000000\<close> and, in the thop variant, \<^verbatim>\<open>gflops = 2.0\<close> and
  \<^verbatim>\<open>gmacs = 1.0\<close>.
\<close>

theorem macs_floor_half_of_flops:
  "(\<not> has_key (analyze_model_fvcore ext n s) ''error'' \<longrightarrow>
      (\<exists>nf. subscript (analyze_model_fvcore ext n s) ''total_flops'' = Inr (PInt nf)
         \<and> subscript (analyze_model_fvcore ext n s) ''total_macs'' = Inr (PInt (nf div 2))
         \<and> (even nf \<longrightarrow> nf = 2 * (nf div 2))
         \<and> (odd nf \<longrightarrow> nf = 2 * (nf div 2) + 1)))
   \<and> (\<not> has_key (analyze_model_thop ext n s) ''error'' \<longrightarrow>
      (\<exists>macs. subscript (analyze_model_thop ext n s) ''total_flops'' = Inr (PInt (py_int (macs * 2)))
         \<and> subscript (analyze_model_thop ext n s) ''total_macs'' = Inr (PInt (py_int macs))
         \<and> subscript (analyze_model_thop ext n s) ''gflops'' = Inr (PFloat (macs * 2 / 1000000000))
         \<and> subscript (analyze_model_thop ext n s) ''gmacs'' = Inr (PFloat (macs / 1000000000))
         \<and> (macs \<in> \<int> \<longrightarrow> py_int (macs * 2) = 2 * py_int macs)
         \<and> (0 \<le> macs \<longrightarrow> py_int (macs * 2) = 2 * py_int macs
                          \<or> py_int (macs * 2) = 2 * py_int macs + 1)))
   \<and> analyze_model_fvcore (scenario two_models 2000000000 1000000000 []) (PStr ''a'')
        [1, 3, 224, 224]
       = [(''model_name'', PStr ''a''), (''total_params'', PInt 1000000),
          (''total_flops'', PInt 2000000000), (''total_macs'', PInt 1000000000),
          (''flops_by_operator'', PDict [(''conv'', PInt 2000000000)]),
          (''flops_by_module'', PDict [('''', PInt 2000000000)])]
   \<and> analyze_model_thop (scenario two_models 2000000000 1000000000 []) (PStr ''a'')
        [1, 3, 224, 224]
       = [(''model_name'', PStr ''a''), (''total_params'', PInt 1000000),
          (''total_flops'', PInt 2000000000), (''total_macs'', PInt 1000000000),
          (''gflops'', PFloat 2), (''gmacs'', PFloat 1)]"
proof (intro conjI impI)
  assume "\<not> has_key (analyze_model_fvcore ext n s) ''error''"
  then have "fvcore_try ext n s = Inr (analyze_model_fvcore ext n s)"
    by (rule analyze_fvcore_no_error)
  then obtain xs nf ops mods where
    "analyze_model_fvcore ext n s =
       [(''model_name'', n), (''total_params'', PInt (sum_list xs)),
        (''total_flops'', PInt nf), (''total_macs'', PInt (nf div 2)),
        (''flops_by_operator'', dict_of_counts ops),
        (''flops_by_module'', dict_of_counts mods)]"
    by (auto elim: fvcore_try_Inr)
  then have "subscript (analyze_model_fvcore ext n s) ''total_flops'' = Inr (PInt nf)"
    and "subscript (analyze_model_fvcore ext n s) ''total_macs'' = Inr (PInt (nf div 2))"
    by (simp_all add: subscript_def)
  moreover have "even nf \<longrightarrow> nf = 2 * (nf div 2)" by auto
  moreover have "odd nf \<longrightarrow> nf = 2 * (nf div 2) + 1" by presburger
  ultimately show "\<exists>nf. subscript (analyze_model_fvcore ext n s) ''total_flops'' = Inr (PInt nf)
         \<and> subscript (analyze_model_fvcore ext n s) ''total_macs'' = Inr (PInt (nf div 2))
         \<and> (even nf \<longrightarrow> nf = 2 * (nf div 2))
         \<and> (odd nf \<longrightarrow> nf = 2 * (nf div 2) + 1)"
    by blast
next
  assume "\<not> has_key (analyze_model_thop ext n s) ''error''"
  then have "thop_try ext n s = Inr (analyze_model_thop ext n s)"
    by (rule analyze_thop_no_error)
  then obtain macs params where
    "analyze_model_thop ext n s =
       [(''model_name'', n), (''total_params'', PInt (py_int params)),
        (''total_flops'', PInt (py_int (macs * 2))), (''total_macs'', PInt (py_int macs)),
        (''gflops'', PFloat (macs * 2 / 1000000000)),
        (''gmacs'', PFloat (macs / 1000000000))]"
    by (auto elim: thop_try_Inr)
  then have "subscript (analyze_model_thop ext n s) ''total_flops''
               = Inr (PInt (py_int (macs * 2)))"
    and "subscript (analyze_model_thop ext n s) ''total_macs'' = Inr (PInt (py_int macs))"
    and "subscript (analyze_model_thop ext n s) ''gflops''
               = Inr (PFloat (macs * 2 / 1000000000))"
    and "subscript (analyze_model_thop ext n s) ''gmacs'' = Inr (PFloat (macs / 1000000000))"
    by (simp_all add: subscript_def)
  then show "\<exists>macs. subscript (analyze_model_thop ext n s) ''total_flops'' = Inr (PInt (py_int (macs * 2)))
         \<and> subscript (analyze_model_thop ext n s) ''total_macs'' = Inr (PInt (py_int macs))
         \<and> subscript (analyze_model_thop ext n s) ''gflops'' = Inr (PFloat (macs * 2 / 1000000000))
         \<and> subscript (analyze_model_thop ext n s) ''gmacs'' = Inr (PFloat (macs / 1000000000))
         \<and> (macs \<in> \<int> \<longrightarrow> py_int (macs * 2) = 2 * py_int macs)
         \<and> (0 \<le> macs \<longrightarrow> py_int (macs * 2) = 2 * py_int macs
                          \<or> py_int (macs * 2) = 2 * py_int macs + 1)"
    using py_int_double_Ints [of macs] py_int_double_nonneg [of macs] by blast
next
  show "analyze_model_fvcore (scenario two_models 2000000000 1000000000 []) (PStr ''a'')
        [1, 3, 224, 224]
       = [(''model_name'', PStr ''a''), (''total_params'', PInt 1000000),
          (''total_flops'', PInt 2000000000), (''total_macs'', PInt 1000000000),
          (''flops_by_operator'', PDict [(''conv'', PInt 2000000000)]),
          (''flops_by_module'', PDict [('''', PInt 2000000000)])]"
    by (simp add: analyze_model_fvcore_def fvcore_try_def scenario_def dict_of_counts_def)
next
  show "analyze_model_thop (scenario two_models 2000000000 1000000000 []) (PStr ''a'')
        [1, 3, 224, 224]
       = [(''model_name'', PStr ''a''), (''total_params'', PInt 1000000),
          (''total_flops'', PInt 2000000000), (''total_macs'', PInt 1000000000),
          (''gflops'', PFloat 2), (''gmacs'', PFloat 1)]"
    by (simp add: analyze_model_thop_def thop_try_def scenario_def py_int_def)
qed

text \<open>The general parts of the theorem at the model \<^verbatim>\<open>a\<close> of the scenario.\<close>

theorem macs_floor_half_of_flops_witness:
  "\<not> has_key (analyze_model_fvcore (scenario two_models 2000000000 1000000000 []) (PStr ''a'') [1, 3, 224, 224]) ''error''
   \<and> (\<exists>nf. subscript (analyze_model_fvcore (scenario two_models 2000000000 1000000000 []) (PStr ''a'') [1, 3, 224, 224]) ''total_flops'' = Inr (PInt nf)
         \<and> subscript (analyze_model_fvcore (scenario two_models 2000000000 1000000000 []) (PStr ''a'') [1, 3, 224, 224]) ''total_macs'' = Inr (PInt (nf div 2))
         \<and> (even nf \<longrightarrow> nf = 2 * (nf div 2))
         \<and> (odd nf \<longrightarrow> nf = 2 * (nf div 2) + 1))
   \<and> \<not> has_key (analyze_model_thop (scenario two_models 2000000000 1000000000 []) (PStr ''a'') [1, 3, 224, 224]) ''error''
   \<and> (\<exists>macs. subscript (analyze_model_thop (scenario two_models 2000000000 1000000000 []) (PStr ''a'') [1, 3, 224, 224]) ''total_flops''
                 = Inr (PInt (py_int (macs * 2)))
         \<and> subscript (analyze_model_thop (scenario two_models 2000000000 1000000000 []) (PStr ''a'') [1, 3, 224, 224]) ''total_macs'' = Inr (PInt (py_int macs))
         \<and> subscript (analyze_model_thop (scenario two_models 2000000000 1000000000 []) (PStr ''a'') [1, 3, 224, 224]) ''gflops''
                 = Inr (PFloat (macs * 2 / 1000000000))
         \<and> subscript (analyze_model_thop (scenario two_models 2000000000 1000000000 []) (PStr ''a'') [1, 3, 224, 224]) ''gmacs'' = Inr (PFloat (macs / 1000000000))
         \<and> (macs \<in> \<int> \<longrightarrow> py_int (macs * 2) = 2 * py_int macs)
         \<and> (0 \<le> macs \<longrightarrow> py_int (macs * 2) = 2 * py_int macs
                          \<or> py_int (macs * 2) = 2 * py_int macs + 1))"
proof -
  have f: "\<not> has_key (analyze_model_fvcore (scenario two_models 2000000000 1000000000 []) (PStr ''a'') [1, 3, 224, 224]) ''error''"
    by (simp add: analyze_model_fvcore_def fvcore_try_def scenario_def has_key_def)
  have t: "\<not> has_key (analyze_model_thop (scenario two_models 2000000000 1000000000 []) (PStr ''a'') [1, 3, 224, 224]) ''error''"
    by (simp add: analyze_model_thop_def thop_try_def scenario_def has_key_def)
  show ?thesis
    using macs_floor_half_of_flops [of "scenario two_models 2000000000 1000000000 []" "PStr ''a''" "[1, 3, 224, 224]"] f t
    by blast
qed

text \<open>
  The claim as stated fails in the fvcore variant when the count is odd: with
  2000000001 operations the record has \<^verbatim>\<open>total_macs = 1000000000\<close>, which is not half
  of \<^verbatim>\<open>total_flops\<close>.
\<close>

theorem odd_flops_macs_not_half:
  "analyze_model_fvcore (scenario two_models 2000000001 1000000000 []) (PStr ''a'')
        [1, 3, 224, 224]
       = [(''model_name'', PStr ''a''), (''total_params'', PInt 1000000),
          (''total_flops'', PInt 2000000001), (''total_macs'', PInt 1000000000),
          (''flops_by_operator'', PDict [(''conv'', PInt 2000000001)]),
          (''flops_by_module'', PDict [('''', PInt 2000000001)])]
   \<and> (2000000001 :: int) \<noteq> 2 * 1000000000"
  by (simp add: analyze_model_fvcore_def fvcore_try_def scenario_def dict_of_counts_def)

subsection \<open>C7: the two analyzers compared\<close>

text \<open>
  C7, as amended. Given the same identifier, input shape and external libraries, the two
  analyzers return the same error record when a step they share (model construction,
  \<^verbatim>\<open>eval\<close>, input generation) raises. When both succeed on counts that agree (fvcore's
  total is twice thop's MAC count and not negative, and the parameter counts are equal),
  their records agree on \<^verbatim>\<open>model_name\<close>, \<^verbatim>\<open>total_params\<close>, \<^verbatim>\<open>total_flops\<close> and
  \<^verbatim>\<open>total_macs\<close>; the fvcore record carries \<^verbatim>\<open>flops_by_operator\<close> and
  \<^verbatim>\<open>flops_by_module\<close> besides, and the thop record \<^verbatim>\<open>gflops\<close> and \<^verbatim>\<open>gmacs\<close>.
\<close>

theorem analyzers_agree_on_shared_fields:
  "(create_model ext n = Inl e
      \<or> (create_model ext n = Inr m0 \<and> model_eval ext m0 = Inl e)
      \<or> (create_model ext n = Inr m0 \<and> model_eval ext m0 = Inr m \<and> torch_rand ext s = Inl e)
    \<longrightarrow> analyze_model_fvcore ext n s = [(''model_name'', n), (''error'', PStr (str_exn e))]
      \<and> analyze_model_thop ext n s = [(''model_name'', n), (''error'', PStr (str_exn e))])
   \<and> (create_model ext n = Inr m0 \<and> model_eval ext m0 = Inr m \<and> torch_rand ext s = Inr t
       \<and> model_parameters ext m = Inr xs \<and> FlopCountAnalysis ext m t = Inr f
       \<and> flops_total ext f = Inr nf \<and> flops_by_operator ext f = Inr ops
       \<and> flops_by_module ext f = Inr mods
       \<and> deepcopy ext m = Inr mc \<and> thop_profile ext mc t = Inr (macs, params)
       \<and> of_int nf = macs * 2 \<and> of_int (sum_list xs) = params \<and> 0 \<le> nf
    \<longrightarrow> analyze_model_fvcore ext n s =
          [(''model_name'', n), (''total_params'', PInt (sum_list xs)),
           (''total_flops'', PInt nf), (''total_macs'', PInt (nf div 2)),
           (''flops_by_operator'', dict_of_counts ops),
           (''flops_by_module'', dict_of_counts mods)]
      \<and> analyze_model_thop ext n s =
          [(''model_name'', n), (''total_params'', PInt (sum_list xs)),
           (''total_flops'', PInt nf), (''total_macs'', PInt (nf div 2)),
           (''gflops'', PFloat (of_int nf / 1000000000)),
           (''gmacs'', PFloat (of_int nf / 2 / 1000000000))])"
proof (intro conjI impI)
  assume h: "create_model ext n = Inl e
      \<or> (create_model ext n = Inr m0 \<and> model_eval ext m0 = Inl e)
      \<or> (create_model ext n = Inr m0 \<and> model_eval ext m0 = Inr m \<and> torch_rand ext s = Inl e)"
  have both: "analyze_model_fvcore ext n s = error_record n e
      \<and> analyze_model_thop ext n s = error_record n e"
    using h
  proof (elim disjE conjE)
    assume "create_model ext n = Inl e"
    then show ?thesis by (rule create_model_fails)
  next
    assume "create_model ext n = Inr m0" "model_eval ext m0 = Inl e"
    then show ?thesis by (rule model_eval_fails)
  next
    assume "create_model ext n = Inr m0" "model_eval ext m0 = Inr m" "torch_rand ext s = Inl e"
    then show ?thesis by (rule torch_rand_fails)
  qed
  from both show "analyze_model_fvcore ext n s = [(''model_name'', n), (''error'', PStr (str_exn e))]"
    by (simp add: error_record_def)
  from both show "analyze_model_thop ext n s = [(''model_name'', n), (''error'', PStr (str_exn e))]"
    by (simp add: error_record_def)
next
  assume h: "create_model ext n = Inr m0 \<and> model_eval ext m0 = Inr m \<and> torch_rand ext s = Inr t
       \<and> model_parameters ext m = Inr xs \<and> FlopCountAnalysis ext m t = Inr f
       \<and> flops_total ext f = Inr nf \<and> flops_by_operator ext f = Inr ops
       \<and> flops_by_module ext f = Inr mods
       \<and> deepcopy ext m = Inr mc \<and> thop_profile ext mc t = Inr (macs, params)
       \<and> of_int nf = macs * 2 \<and> of_int (sum_list xs) = params \<and> 0 \<le> nf"
  from h have c1: "create_model ext n = Inr m0" by (elim conjE)
  from h have c2: "model_eval ext m0 = Inr m" by (elim conjE)
  from h have c3: "torch_rand ext s = Inr t" by (elim conjE)
  from h have f1: "model_parameters ext m = Inr xs" by (elim conjE)
  from h have f2: "FlopCountAnalysis ext m t = Inr f" by (elim conjE)
  from h have f3: "flops_total ext f = Inr nf" by (elim conjE)
  from h have f4: "flops_by_operator ext f = Inr ops" by (elim conjE)
  from h have f5: "flops_by_module ext f = Inr mods" by (elim conjE)
  from h have t1: "deepcopy ext m = Inr mc" by (elim conjE)
  from h have t2: "thop_profile ext mc t = Inr (macs, params)" by (elim conjE)
  from h have a1: "of_int nf = macs * 2" by (elim conjE)
  from h have a2: "of_int (sum_list xs) = params" by (elim conjE)
  from h have nn: "0 \<le> nf" by (elim conjE)
  show "analyze_model_fvcore ext n s =
          [(''model_name'', n), (''total_params'', PInt (sum_list xs)),
           (''total_flops'', PInt nf), (''total_macs'', PInt (nf div 2)),
           (''flops_by_operator'', dict_of_counts ops),
           (''flops_by_module'', dict_of_counts mods)]"
    by (simp add: analyze_model_fvcore_def fvcore_try_def c1 c2 c3 f1 f2 f3 f4 f5)
  have m: "macs = of_int nf / 2"
    using a1 by simp
  have p: "py_int params = sum_list xs"
    unfolding a2 [symmetric] by (rule py_int_of_int)
  have d: "py_int (macs * 2) = nf"
    unfolding a1 [symmetric] by (rule py_int_of_int)
  have hf: "py_int macs = nf div 2"
    unfolding m by (rule py_int_half [OF nn])
  have g: "macs * 2 / 1000000000 = of_int nf / 1000000000"
    unfolding a1 [symmetric] by (rule refl)
  have gm: "macs / 1000000000 = of_int nf / 2 / 1000000000"
    unfolding m by (rule refl)
  have "analyze_model_thop ext n s =
          [(''model_name'', n), (''total_params'', PInt (py_int params)),
           (''total_flops'', PInt (py_int (macs * 2))), (''total_macs'', PInt (py_int macs)),
           (''gflops'', PFloat (macs * 2 / 1000000000)),
           (''gmacs'', PFloat (macs / 1000000000))]"
    by (simp add: analyze_model_thop_def thop_try_def c1 c2 c3 t1 t2)
  then show "analyze_model_thop ext n s =
          [(''model_name'', n), (''total_params'', PInt (sum_list xs)),
           (''total_flops'', PInt nf), (''total_macs'', PInt (nf div 2)),
           (''gflops'', PFloat (of_int nf / 1000000000)),
           (''gmacs'', PFloat (of_int nf / 2 / 1000000000))]"
    by (simp only: p d hf g gm)
qed

text \<open>The theorem in the scenario: at \<^verbatim>\<open>b\<close>, which is unknown, and at \<^verbatim>\<open>a\<close>.\<close>

theorem analyzers_agree_on_shared_fields_witness:
  "create_model (scenario two_models 2000000000 1000000000 []) (PStr ''b'') = Inl (RuntimeError ''Unknown model'')
   \<and> analyze_model_fvcore (scenario two_models 2000000000 1000000000 []) (PStr ''b'') [1, 3, 224, 224]
       = [(''model_name'', PStr ''b''),
          (''error'', PStr (str_exn (RuntimeError ''Unknown model'')))]
   \<and> analyze_model_thop (scenario two_models 2000000000 1000000000 []) (PStr ''b'') [1, 3, 224, 224]
       = [(''model_name'', PStr ''b''),
          (''error'', PStr (str_exn (RuntimeError ''Unknown model'')))]
   \<and> thop_profile (scenario two_models 2000000000 1000000000 []) () () = Inr (1000000000, 1000000)
   \<and> flops_total (scenario two_models 2000000000 1000000000 []) () = Inr 2000000000
   \<and> (of_int 2000000000 :: rat) = 1000000000 * 2
   \<and> (of_int (sum_list [600000, 400000]) :: rat) = 1000000
   \<and> analyze_model_fvcore (scenario two_models 2000000000 1000000000 []) (PStr ''a'') [1, 3, 224, 224] =
          [(''model_name'', PStr ''a''), (''total_params'', PInt (sum_list [600000, 400000])),
           (''total_flops'', PInt 2000000000), (''total_macs'', PInt (2000000000 div 2)),
           (''flops_by_operator'', dict_of_counts [(''conv'', 2000000000)]),
           (''flops_by_module'', dict_of_counts [('''', 2000000000)])]
   \<and> analyze_model_thop (scenario two_models 2000000000 1000000000 []) (PStr ''a'') [1, 3, 224, 224] =
          [(''model_name'', PStr ''a''), (''total_params'', PInt (sum_list [600000, 400000])),
           (''total_flops'', PInt 2000000000), (''total_macs'', PInt (2000000000 div 2)),
           (''gflops'', PFloat (of_int 2000000000 / 1000000000)),
           (''gmacs'', PFloat (of_int 2000000000 / 2 / 1000000000))]"
proof -
  let ?ext = "scenario two_models 2000000000 1000000000 []"
  have b: "create_model ?ext (PStr ''b'') = Inl (RuntimeError ''Unknown model'')"
    by (simp add: scenario_def)
  have s1: "create_model ?ext (PStr ''a'') = Inr ()" "model_eval ?ext () = Inr ()"
    "torch_rand ?ext [1, 3, 224, 224] = Inr ()"
    by (simp_all add: scenario_def)
  have s2: "model_parameters ?ext () = Inr [600000, 400000]"
    "FlopCountAnalysis ?ext () () = Inr ()" "flops_total ?ext () = Inr 2000000000"
    "flops_by_operator ?ext () = Inr [(''conv'', 2000000000)]"
    "flops_by_module ?ext () = Inr [('''', 2000000000)]"
    by (simp_all add: scenario_def)
  have s3: "deepcopy ?ext () = Inr ()" "thop_profile ?ext () () = Inr (1000000000, 1000000)"
    by (simp_all add: scenario_def)
  have s4: "(of_int 2000000000 :: rat) = 1000000000 * 2"
    "(of_int (sum_list [600000, 400000]) :: rat) = 1000000" "(0::int) \<le> 2000000000"
    by simp_all
  note fail = analyzers_agree_on_shared_fields
    [where ext = ?ext and n = "PStr ''b''" and e = "RuntimeError ''Unknown model''"
       and s = "[1, 3, 224, 224]", THEN conjunct1, rule_format, OF disjI1, OF b]
  note ok = analyzers_agree_on_shared_fields
    [where ext = ?ext and n = "PStr ''a''" and ?m0.0 = "()" and m = "()" and t = "()"
       and s = "[1, 3, 224, 224]" and xs = "[600000, 400000]" and f = "()"
       and nf = 2000000000 and ops = "[(''conv'', 2000000000)]"
       and mods = "[('''', 2000000000)]" and mc = "()" and macs = 1000000000
       and params = 1000000, THEN conjunct2, rule_format]
  have ok': "analyze_model_fvcore ?ext (PStr ''a'') [1, 3, 224, 224] =
          [(''model_name'', PStr ''a''), (''total_params'', PInt (sum_list [600000, 400000])),
           (''total_flops'', PInt 2000000000), (''total_macs'', PInt (2000000000 div 2)),
           (''flops_by_operator'', dict_of_counts [(''conv'', 2000000000)]),
           (''flops_by_module'', dict_of_counts [('''', 2000000000)])]
      \<and> analyze_model_thop ?ext (PStr ''a'') [1, 3, 224, 224] =
          [(''model_name'', PStr ''a''), (''total_params'', PInt (sum_list [600000, 400000])),
           (''total_flops'', PInt 2000000000), (''total_macs'', PInt (2000000000 div 2)),
           (''gflops'', PFloat (of_int 2000000000 / 1000000000)),
           (''gmacs'', PFloat (of_int 2000000000 / 2 / 1000000000))]"
    by (rule ok) (intro conjI s1 s2 s3 s4)
  show ?thesis
    by (intro conjI b conjunct1 [OF fail] conjunct2 [OF fail] s3(2) s2(3) s4(1) s4(2)
        conjunct1 [OF ok'] conjunct2 [OF ok'])
qed

text \<open>
  The claim as stated fails: on the same model and the same counts the two records do
  not have the same fields, and the renderer, which reads \<^verbatim>\<open>gflops\<close>, raises on a
  report of the fvcore variant where it renders one of the thop variant.
\<close>

theorem analyzer_records_differ_in_fields:
  "has_key (analyze_model_fvcore (scenario two_models 2000000000 1000000000 []) (PStr ''a'')
              [1, 3, 224, 224]) ''flops_by_operator''
   \<and> \<not> has_key (analyze_model_thop (scenario two_models 2000000000 1000000000 []) (PStr ''a'')
              [1, 3, 224, 224]) ''flops_by_operator''
   \<and> has_key (analyze_model_thop (scenario two_models 2000000000 1000000000 []) (PStr ''a'')
              [1, 3, 224, 224]) ''gflops''
   \<and> \<not> has_key (analyze_model_fvcore (scenario two_models 2000000000 1000000000 []) (PStr ''a'')
              [1, 3, 224, 224]) ''gflops''
   \<and> plot_main (scenario two_models 2000000000 1000000000
        [analyze_model_fvcore (scenario two_models 2000000000 1000000000 []) (PStr ''a'')
           [1, 3, 224, 224]])
       = Inl (KeyError ''gflops'')"
  by (simp add: analyze_model_fvcore_def analyze_model_thop_def fvcore_try_def thop_try_def
      scenario_def has_key_def dict_of_counts_def plot_main_def load_model_analysis_def
      create_bar_plot_def subscript_def million_per_million Let_def
      del: true_div_million.simps)
subsection \<open>C8: the bar charts\<close>

text \<open>
  C8. Each rendered bar chart has exactly one bar per valid (non-error) record; the
  parameter count is divided by 1000000 before plotting (\<open>millions\<close>: Python's
  \<^verbatim>\<open>val / 1_000_000\<close>, a float); each bar is annotated at its top with its value
  formatted to two decimal places. In the concrete scenario (one valid model, of
  1000000 parameters) the parameters chart has a single bar, annotated \<^verbatim>\<open>1.00\<close>.
\<close>

theorem bar_charts_one_bar_per_valid_record:
  "(json_load ext ''caformer/model_analysis.json'' = Inr data
      \<and> plot_main ext = Inr r
      \<and> filter (\<lambda>m. \<not> has_key m ''error'') data \<noteq> []
    \<longrightarrow> (\<exists>pc gc tbl.
          saved r = [(''model_analysis_grid.png'', Grid [BarChart pc, BarChart gc, tbl]),
                     (''model_parameters.png'', BarChart pc),
                     (''model_gflops.png'', BarChart gc),
                     (''model_table.png'', tbl)]
        \<and> bars_of (filter (\<lambda>m. \<not> has_key m ''error'') data) ''total_params'' millions pc
        \<and> bars_of (filter (\<lambda>m. \<not> has_key m ''error'') data) ''gflops'' as_number gc))
   \<and> plot_main (scenario two_models 2000000000 1000000000 report_ab)
       = Inr \<lparr>plot_printed = [''Saved grid image to model_analysis_grid.png'',
                              ''Saved individual plots as well.''],
              saved =
                [(''model_analysis_grid.png'',
                  Grid [BarChart \<lparr>chart_title = ''Model Parameters'',
                                  chart_ylabel = ''Parameters (M)'',
                                  chart_bars = [(PStr ''a'', 1)],
                                  chart_texts = [(1, ''1.00'')]\<rparr>,
                        BarChart \<lparr>chart_title = ''Model GFLOPs'', chart_ylabel = ''GFLOPs'',
                                  chart_bars = [(PStr ''a'', 2)],
                                  chart_texts = [(2, ''2.00'')]\<rparr>,
                        Table [(PStr ''a'', ''1.00'', ''2.00'')]]),
                 (''model_parameters.png'',
                  BarChart \<lparr>chart_title = ''Model Parameters'',
                            chart_ylabel = ''Parameters (M)'',
                            chart_bars = [(PStr ''a'', 1)],
                            chart_texts = [(1, ''1.00'')]\<rparr>),
                 (''model_gflops.png'',
                  BarChart \<lparr>chart_title = ''Model GFLOPs'', chart_ylabel = ''GFLOPs'',
                            chart_bars = [(PStr ''a'', 2)],
                            chart_texts = [(2, ''2.00'')]\<rparr>),
                 (''model_table.png'', Table [(PStr ''a'', ''1.00'', ''2.00'')])]\<rparr>"
proof (intro conjI impI)
  assume h: "json_load ext ''caformer/model_analysis.json'' = Inr data
      \<and> plot_main ext = Inr r
      \<and> filter (\<lambda>m. \<not> has_key m ''error'') data \<noteq> []"
  then obtain pc gc tbl where
    p: "create_bar_plot (filter (\<lambda>m. \<not> has_key m ''error'') data)
       ''total_params'' ''Model Parameters'' ''Parameters (M)'' = Inr pc"
    and g: "create_bar_plot (filter (\<lambda>m. \<not> has_key m ''error'') data)
       ''gflops'' ''Model GFLOPs'' ''GFLOPs'' = Inr gc"
    and s: "saved r = [(''model_analysis_grid.png'', Grid [BarChart pc, BarChart gc, tbl]),
                (''model_parameters.png'', BarChart pc),
                (''model_gflops.png'', BarChart gc),
                (''model_table.png'', tbl)]"
    by (auto elim: plot_main_valid)
  from create_bar_plot_bars [OF p]
  have "bars_of (filter (\<lambda>m. \<not> has_key m ''error'') data) ''total_params'' millions pc"
    by simp
  moreover from create_bar_plot_bars [OF g]
  have "bars_of (filter (\<lambda>m. \<not> has_key m ''error'') data) ''gflops'' as_number gc"
    by simp
  ultimately show "\<exists>pc gc tbl.
          saved r = [(''model_analysis_grid.png'', Grid [BarChart pc, BarChart gc, tbl]),
                     (''model_parameters.png'', BarChart pc),
                     (''model_gflops.png'', BarChart gc),
                     (''model_table.png'', tbl)]
        \<and> bars_of (filter (\<lambda>m. \<not> has_key m ''error'') data) ''total_params'' millions pc
        \<and> bars_of (filter (\<lambda>m. \<not> has_key m ''error'') data) ''gflops'' as_number gc"
    using s by blast
next
  show "plot_main (scenario two_models 2000000000 1000000000 report_ab)
       = Inr \<lparr>plot_printed = [''Saved grid image to model_analysis_grid.png'',
                              ''Saved individual plots as well.''],
              saved =
                [(''model_analysis_grid.png'',
                  Grid [BarChart \<lparr>chart_title = ''Model Parameters'',
                                  chart_ylabel = ''Parameters (M)'',
                                  chart_bars = [(PStr ''a'', 1)],
                                  chart_texts = [(1, ''1.00'')]\<rparr>,
                        BarChart \<lparr>chart_title = ''Model GFLOPs'', chart_ylabel = ''GFLOPs'',
                                  chart_bars = [(PStr ''a'', 2)],
                                  chart_texts = [(2, ''2.00'')]\<rparr>,
                        Table [(PStr ''a'', ''1.00'', ''2.00'')]]),
                 (''model_parameters.png'',
                  BarChart \<lparr>chart_title = ''Model Parameters'',
                            chart_ylabel = ''Parameters (M)'',
                            chart_bars = [(PStr ''a'', 1)],
                            chart_texts = [(1, ''1.00'')]\<rparr>),
                 (''model_gflops.png'',
                  BarChart \<lparr>chart_title = ''Model GFLOPs'', chart_ylabel = ''GFLOPs'',
                            chart_bars = [(PStr ''a'', 2)],
                            chart_texts = [(2, ''2.00'')]\<rparr>),
                 (''model_table.png'', Table [(PStr ''a'', ''1.00'', ''2.00'')])]\<rparr>"
    by (simp add: plot_main_def load_model_analysis_def scenario_def report_ab_def has_key_def
        create_bar_plot_def subscript_def million_per_million create_table_image_def table_row_def
        format_2f_def fmt2f_1 fmt2f_2 Let_def del: true_div_million.simps)
qed

text \<open>
  The general part of the theorem at the report of the scenario. The heights are
  doubles: a count of 1015000 is drawn as the double nearest to 1.015, which lies below
  it, and annotated \<^verbatim>\<open>1.01\<close>.
\<close>

theorem bar_charts_one_bar_per_valid_record_witness:
  "json_load (scenario two_models 2000000000 1000000000 report_ab) ''caformer/model_analysis.json''
     = Inr report_ab
   \<and> (filter (\<lambda>m. \<not> has_key m ''error'')) report_ab \<noteq> []
   \<and> (\<exists>r. plot_main (scenario two_models 2000000000 1000000000 report_ab) = Inr r
        \<and> (\<exists>pc gc tbl.
              saved r = [(''model_analysis_grid.png'', Grid [BarChart pc, BarChart gc, tbl]),
                         (''model_parameters.png'', BarChart pc),
                         (''model_gflops.png'', BarChart gc),
                         (''model_table.png'', tbl)]
            \<and> bars_of ((filter (\<lambda>m. \<not> has_key m ''error'')) report_ab) ''total_params'' millions pc
            \<and> bars_of ((filter (\<lambda>m. \<not> has_key m ''error'')) report_ab) ''gflops'' as_number gc))
   \<and> create_bar_plot [[(''model_name'', PStr ''m''), (''total_params'', PInt 1015000)]]
        ''total_params'' ''Model Parameters'' ''Parameters (M)''
       = Inr \<lparr>chart_title = ''Model Parameters'', chart_ylabel = ''Parameters (M)'',
              chart_bars = [(PStr ''m'', 4571153621781053 / 4503599627370496)],
              chart_texts = [(4571153621781053 / 4503599627370496, ''1.01'')]\<rparr>"
proof -
  let ?ext = "scenario two_models 2000000000 1000000000 report_ab"
  have j: "json_load ?ext ''caformer/model_analysis.json'' = Inr report_ab"
    by (simp add: scenario_def)
  have f: "(filter (\<lambda>m. \<not> has_key m ''error'')) report_ab \<noteq> []"
    by (simp add: report_ab_def has_key_def)
  from bar_charts_one_bar_per_valid_record [of ?ext report_ab]
  obtain r where r: "plot_main ?ext = Inr r"
    by blast
  have x: "create_bar_plot [[(''model_name'', PStr ''m''), (''total_params'', PInt 1015000)]]
        ''total_params'' ''Model Parameters'' ''Parameters (M)''
       = Inr \<lparr>chart_title = ''Model Parameters'', chart_ylabel = ''Parameters (M)'',
              chart_bars = [(PStr ''m'', 4571153621781053 / 4503599627370496)],
              chart_texts = [(4571153621781053 / 4503599627370496, ''1.01'')]\<rparr>"
    by (simp add: create_bar_plot_def subscript_def rounded_per_million fmt2f_rounded
        del: true_div_million.simps)
  from bar_charts_one_bar_per_valid_record [of ?ext report_ab r] j f r x
  show ?thesis
    by blast
qed

subsection \<open>C9: the report read back\<close>

text \<open>
  C9. Round trip: the JSON document that the batch runner writes, parsed back by
  \<^verbatim>\<open>json.load\<close> as the renderer's loader does before it filters, is the sequence of
  records that was written, equal field for field and in the same order. In general
  \<^verbatim>\<open>json.load\<close> gives back what \<^verbatim>\<open>json.dump\<close> was given whenever every dictionary
  in it has each key once, as Python's dictionaries have; the records of both
  analyzers are such values when the identifiers are, and when fvcore's counters are
  dictionaries.
\<close>

theorem report_json_round_trip:
  "(keys_distinct v \<longrightarrow> json_load_document (json_dump v) = v)
   \<and> (parse_input_shape ext (arg_input_shape a) = Inr shape
       \<and> load_config ext (arg_config a) = Inr (PDict kvs)
       \<and> map_of kvs ''models'' = Some (PList names)
       \<and> names \<noteq> []
       \<and> (\<forall>n\<in>set names. keys_distinct n)
       \<and> counters_are_dicts ext
       \<and> main_fvcore ext a = Inr r
     \<longrightarrow> (\<exists>document. written r = [(arg_output a, document)]
           \<and> json_load_document document
               = PList (map (\<lambda>n. PDict (analyze_model_fvcore ext n shape)) names)))
   \<and> (parse_input_shape ext (arg_input_shape a) = Inr shape
       \<and> load_config ext (arg_config a) = Inr (PDict kvs)
       \<and> map_of kvs ''models'' = Some (PList names)
       \<and> names \<noteq> []
       \<and> (\<forall>n\<in>set names. keys_distinct n)
       \<and> main_thop ext a = Inr r'
     \<longrightarrow> (\<exists>document. written r' = [(arg_output a, document)]
           \<and> json_load_document document
               = PList (map (\<lambda>n. PDict (analyze_model_thop ext n shape)) names)))"
proof (intro conjI impI)
  assume "keys_distinct v"
  then show "json_load_document (json_dump v) = v"
    by (rule json_round_trip)
next
  assume h: "parse_input_shape ext (arg_input_shape a) = Inr shape
       \<and> load_config ext (arg_config a) = Inr (PDict kvs)
       \<and> map_of kvs ''models'' = Some (PList names)
       \<and> names \<noteq> []
       \<and> (\<forall>n\<in>set names. keys_distinct n)
       \<and> counters_are_dicts ext
       \<and> main_fvcore ext a = Inr r"
  let ?report = "PList (map (\<lambda>n. PDict (analyze_model_fvcore ext n shape)) names)"
  from h have p: "parse_input_shape ext (arg_input_shape a) = Inr shape" by (elim conjE)
  from h have l: "load_config ext (arg_config a) = Inr (PDict kvs)" by (elim conjE)
  from h have k: "map_of kvs ''models'' = Some (PList names)" by (elim conjE)
  from h have ne: "names \<noteq> []" by (elim conjE)
  from h have kd: "\<forall>n\<in>set names. keys_distinct n" by (elim conjE)
  from h have cd: "counters_are_dicts ext" by (elim conjE)
  from h have m: "main_fvcore ext a = Inr r" by (elim conjE)
  have doc: "JArray (map (\<lambda>r. json_dump (PDict r))
                  (map (\<lambda>n. analyze_model_fvcore ext n shape) names)) = json_dump ?report"
    by (simp add: comp_def)
  from m have "and_then (write_file ext (arg_output a) (json_dump ?report))
      (\<lambda>u. Inr \<lparr>printed = map AnalyzingModel names @ [AnalysisCompleted (arg_output a)],
                 written = [(arg_output a, json_dump ?report)]\<rparr>) = Inr r"
    unfolding main_fvcore_def main_with_list [OF p l k ne] doc .
  then have w: "written r = [(arg_output a, json_dump ?report)]"
    by (cases "write_file ext (arg_output a) (json_dump ?report)") auto
  have "keys_distinct ?report"
    using kd cd by (simp add: keys_distinct_fvcore del: keys_distinct.simps(2))
  then have "json_load_document (json_dump ?report) = ?report"
    by (rule json_round_trip)
  with w show "\<exists>document. written r = [(arg_output a, document)]
           \<and> json_load_document document = ?report"
    by blast
next
  assume h: "parse_input_shape ext (arg_input_shape a) = Inr shape
       \<and> load_config ext (arg_config a) = Inr (PDict kvs)
       \<and> map_of kvs ''models'' = Some (PList names)
       \<and> names \<noteq> []
       \<and> (\<forall>n\<in>set names. keys_distinct n)
       \<and> main_thop ext a = Inr r'"
  let ?report = "PList (map (\<lambda>n. PDict (analyze_model_thop ext n shape)) names)"
  from h have p: "parse_input_shape ext (arg_input_shape a) = Inr shape" by (elim conjE)
  from h have l: "load_config ext (arg_config a) = Inr (PDict kvs)" by (elim conjE)
  from h have k: "map_of kvs ''models'' = Some (PList names)" by (elim conjE)
  from h have ne: "names \<noteq> []" by (elim conjE)
  from h have kd: "\<forall>n\<in>set names. keys_distinct n" by (elim conjE)
  from h have m: "main_thop ext a = Inr r'" by (elim conjE)
  have doc: "JArray (map (\<lambda>r. json_dump (PDict r))
                  (map (\<lambda>n. analyze_model_thop ext n shape) names)) = json_dump ?report"
    by (simp add: comp_def)
  from m have "and_then (write_file ext (arg_output a) (json_dump ?report))
      (\<lambda>u. Inr \<lparr>printed = map AnalyzingModel names @ [AnalysisCompleted (arg_output a)],
                 written = [(arg_output a, json_dump ?report)]\<rparr>) = Inr r'"
    unfolding main_thop_def main_with_list [OF p l k ne] doc .
  then have w: "written r' = [(arg_output a, json_dump ?report)]"
    by (cases "write_file ext (arg_output a) (json_dump ?report)") auto
  have "keys_distinct ?report"
    using kd by (simp add: keys_distinct_thop del: keys_distinct.simps(2))
  then have "json_load_document (json_dump ?report) = ?report"
    by (rule json_round_trip)
  with w show "\<exists>document. written r' = [(arg_output a, document)]
           \<and> json_load_document document = ?report"
    by blast
qed

text \<open>
  The theorem at \<^verbatim>\<open>{models: ["a", "b"]}\<close>: the documents that the two entry points
  write are read back as the records of \<^verbatim>\<open>a\<close> and \<^verbatim>\<open>b\<close>.
\<close>

theorem report_json_round_trip_witness:
  "keys_distinct (PStr ''a'') \<and> keys_distinct (PStr ''b'')
   \<and> counters_are_dicts (scenario two_models 2000000000 1000000000 [])
   \<and> (\<exists>r. main_fvcore (scenario two_models 2000000000 1000000000 []) demo_args = Inr r
        \<and> (\<exists>document. written r = [(arg_output demo_args, document)]
              \<and> json_load_document document
                  = PList [PDict [(''model_name'', PStr ''a''), (''total_params'', PInt 1000000),
                                  (''total_flops'', PInt 2000000000),
                                  (''total_macs'', PInt 1000000000),
                                  (''flops_by_operator'', PDict [(''conv'', PInt 2000000000)]),
                                  (''flops_by_module'', PDict [('''', PInt 2000000000)])],
                           PDict [(''model_name'', PStr ''b''),
                                  (''error'', PStr ''Unknown model'')]]))
   \<and> (\<exists>r. main_thop (scenario two_models 2000000000 1000000000 []) demo_args = Inr r
        \<and> (\<exists>document. written r = [(arg_output demo_args, document)]
              \<and> json_load_document document
                  = PList [PDict [(''model_name'', PStr ''a''), (''total_params'', PInt 1000000),
                                  (''total_flops'', PInt 2000000000),
                                  (''total_macs'', PInt 1000000000),
                                  (''gflops'', PFloat 2), (''gmacs'', PFloat 1)],
                           PDict [(''model_name'', PStr ''b''),
                                  (''error'', PStr ''Unknown model'')]]))"
proof -
  let ?ext = "scenario two_models 2000000000 1000000000 []"
  let ?names = "[PStr ''a'', PStr ''b'']"
  have p: "parse_input_shape ?ext (arg_input_shape demo_args) = Inr [1, 3, 224, 224]"
    by (rule scenario_parse)
  have l: "load_config ?ext (arg_config demo_args) = Inr (PDict [(''models'', PList ?names)])"
    by (simp add: scenario_load two_models_def)
  have k: "map_of [(''models'', PList ?names)] ''models'' = Some (PList ?names)"
    by simp
  have ne: "?names \<noteq> []"
    by simp
  have kd: "\<forall>n\<in>set ?names. keys_distinct n"
    by simp
  have cd: "counters_are_dicts ?ext"
    by (rule scenario_counters)
  have w: "write_file ?ext (arg_output demo_args) d = Inr ()" for d
    by (rule scenario_write) (simp add: demo_args_def)
  obtain rf where rf: "main_fvcore ?ext demo_args = Inr rf"
    unfolding main_fvcore_def using main_with_written [OF p l k ne w] by blast
  obtain rt where rt: "main_thop ?ext demo_args = Inr rt"
    unfolding main_thop_def using main_with_written [OF p l k ne w] by blast
  have fv: "map (\<lambda>n. PDict (analyze_model_fvcore ?ext n [1, 3, 224, 224])) ?names
      = [PDict [(''model_name'', PStr ''a''), (''total_params'', PInt 1000000),
                (''total_flops'', PInt 2000000000), (''total_macs'', PInt 1000000000),
                (''flops_by_operator'', PDict [(''conv'', PInt 2000000000)]),
                (''flops_by_module'', PDict [('''', PInt 2000000000)])],
         PDict [(''model_name'', PStr ''b''), (''error'', PStr ''Unknown model'')]]"
    by (simp add: analyze_model_fvcore_def fvcore_try_def scenario_def dict_of_counts_def
        error_record_def)
  have th: "map (\<lambda>n. PDict (analyze_model_thop ?ext n [1, 3, 224, 224])) ?names
      = [PDict [(''model_name'', PStr ''a''), (''total_params'', PInt 1000000),
                (''total_flops'', PInt 2000000000), (''total_macs'', PInt 1000000000),
                (''gflops'', PFloat 2), (''gmacs'', PFloat 1)],
         PDict [(''model_name'', PStr ''b''), (''error'', PStr ''Unknown model'')]]"
    by (simp add: analyze_model_thop_def thop_try_def scenario_def py_int_def error_record_def)
  note rt1 = report_json_round_trip
    [where ext = ?ext and a = demo_args and shape = "[1, 3, 224, 224]"
       and kvs = "[(''models'', PList ?names)]" and names = ?names and r = rf and r' = rt]
  have "\<exists>document. written rf = [(arg_output demo_args, document)]
      \<and> json_load_document document
          = PList (map (\<lambda>n. PDict (analyze_model_fvcore ?ext n [1, 3, 224, 224])) ?names)"
    by (rule rt1 [THEN conjunct2, THEN conjunct1, THEN mp]) (intro conjI p l k ne kd cd rf)
  then have a: "\<exists>document. written rf = [(arg_output demo_args, document)]
      \<and> json_load_document document
          = PList [PDict [(''model_name'', PStr ''a''), (''total_params'', PInt 1000000),
                (''total_flops'', PInt 2000000000), (''total_macs'', PInt 1000000000),
                (''flops_by_operator'', PDict [(''conv'', PInt 2000000000)]),
                (''flops_by_module'', PDict [('''', PInt 2000000000)])],
         PDict [(''model_name'', PStr ''b''), (''error'', PStr ''Unknown model'')]]"
    unfolding fv .
  have "\<exists>document. written rt = [(arg_output demo_args, document)]
      \<and> json_load_document document
          = PList (map (\<lambda>n. PDict (analyze_model_thop ?ext n [1, 3, 224, 224])) ?names)"
    by (rule rt1 [THEN conjunct2, THEN conjunct2, THEN mp]) (intro conjI p l k ne kd rt)
  then have b: "\<exists>document. written rt = [(arg_output demo_args, document)]
      \<and> json_load_document document
          = PList [PDict [(''model_name'', PStr ''a''), (''total_params'', PInt 1000000),
                (''total_flops'', PInt 2000000000), (''total_macs'', PInt 1000000000),
                (''gflops'', PFloat 2), (''gmacs'', PFloat 1)],
         PDict [(''model_name'', PStr ''b''), (''error'', PStr ''Unknown model'')]]"
    unfolding th .
  have ka: "keys_distinct (PStr ''a'')" and kb: "keys_distinct (PStr ''b'')"
    by simp_all
  from ka kb cd rf a rt b show ?thesis
    by blast
qed

subsection \<open>C10: a missing or null models key\<close>

text \<open>
  C10, as amended. If the parsed configuration is a mapping that has no \<^verbatim>\<open>models\<close>
  key, or whose \<^verbatim>\<open>models\<close> key maps to a null or empty value (any value that Python
  counts as false), both batch entry points behave exactly as for an explicitly empty
  list: they print the no-models message, write no report and return without raising.
\<close>

theorem missing_models_key_as_empty:
  assumes "parse_input_shape ext (arg_input_shape a) = Inr shape"
    and "load_config ext (arg_config a) = Inr (PDict kvs)"
    and "map_of kvs ''models'' = None \<or> (\<exists>v. map_of kvs ''models'' = Some v \<and> \<not> truthy v)"
    and "parse_input_shape ext0 (arg_input_shape a0) = Inr shape0"
    and "load_config ext0 (arg_config a0) = Inr (PDict [(''models'', PList [])])"
  shows "main_fvcore ext a = main_fvcore ext0 a0
       \<and> main_thop ext a = main_thop ext0 a0
       \<and> main_fvcore ext a =
           Inr \<lparr>printed = [Line ''No models specified in the configuration file.''],
                written = []\<rparr>
       \<and> main_thop ext a =
           Inr \<lparr>printed = [Line ''No models specified in the configuration file.''],
                written = []\<rparr>"
proof -
  from assms(3) obtain v where g: "config_get_models (PDict kvs) = Inr v" and v: "\<not> truthy v"
    by (auto split: option.splits)
  have m: "main_with analyze ext a = Inr no_models_run" for analyze
    by (rule main_with_falsy [OF assms(1) assms(2) g v])
  have g0: "config_get_models (PDict [(''models'', PList [])]) = Inr (PList [])"
    by simp
  have m0: "main_with analyze ext0 a0 = Inr no_models_run" for analyze
    by (rule main_with_falsy [OF assms(4) assms(5) g0]) simp
  show ?thesis
    using m m0 by (simp add: main_fvcore_def main_thop_def no_models_run_def)
qed

text \<open>
  The theorem at a configuration without the key, and at \<^verbatim>\<open>{models: null}\<close>, each
  against \<^verbatim>\<open>{models: []}\<close>.
\<close>

theorem missing_models_key_as_empty_witness:
  "map_of [(''input_shape'', PList [PInt 1, PInt 3, PInt 224, PInt 224])] ''models'' = None
   \<and> main_fvcore (scenario no_models_key 2000000000 1000000000 []) demo_args
       = main_fvcore (scenario no_models 2000000000 1000000000 []) demo_args
   \<and> main_thop (scenario no_models_key 2000000000 1000000000 []) demo_args
       = main_thop (scenario no_models 2000000000 1000000000 []) demo_args
   \<and> main_fvcore (scenario no_models_key 2000000000 1000000000 []) demo_args =
        Inr \<lparr>printed = [Line ''No models specified in the configuration file.''],
             written = []\<rparr>
   \<and> (\<exists>v. map_of [(''models'', PNone)] ''models'' = Some v \<and> \<not> truthy v)
   \<and> main_fvcore (scenario null_models 2000000000 1000000000 []) demo_args
       = main_fvcore (scenario no_models 2000000000 1000000000 []) demo_args
   \<and> main_thop (scenario null_models 2000000000 1000000000 []) demo_args
       = main_thop (scenario no_models 2000000000 1000000000 []) demo_args
   \<and> main_thop (scenario null_models 2000000000 1000000000 []) demo_args =
        Inr \<lparr>printed = [Line ''No models specified in the configuration file.''],
             written = []\<rparr>"
proof -
  have e: "load_config (scenario no_models 2000000000 1000000000 []) (arg_config demo_args)
             = Inr (PDict [(''models'', PList [])])"
    by (simp add: scenario_load no_models_def)
  have k: "load_config (scenario no_models_key 2000000000 1000000000 []) (arg_config demo_args)
             = Inr (PDict [(''input_shape'', PList [PInt 1, PInt 3, PInt 224, PInt 224])])"
    by (simp add: scenario_load no_models_key_def)
  have n: "load_config (scenario null_models 2000000000 1000000000 []) (arg_config demo_args)
             = Inr (PDict [(''models'', PNone)])"
    by (simp add: scenario_load null_models_def)
  have hk: "map_of [(''input_shape'', PList [PInt 1, PInt 3, PInt 224, PInt 224])] ''models''
              = None"
    by simp
  have hn: "\<exists>v. map_of [(''models'', PNone)] ''models'' = Some v \<and> \<not> truthy v"
    by simp
  show ?thesis
    using missing_models_key_as_empty [OF scenario_parse k disjI1 [OF hk] scenario_parse e]
      missing_models_key_as_empty [OF scenario_parse n disjI2 [OF hn] scenario_parse e] hk hn
    by blast
qed

text \<open>
  The claim as stated fails for a configuration that has no \<^verbatim>\<open>models\<close> key because
  it is no mapping at all: an empty configuration file parses to \<^verbatim>\<open>None\<close>, and
  \<^verbatim>\<open>config.get\<close> raises in both scripts.
\<close>

theorem empty_config_file_raises:
  "main_fvcore (scenario PNone 2000000000 1000000000 []) demo_args
     = Inl (AttributeError ''object has no attribute get'')
   \<and> main_thop (scenario PNone 2000000000 1000000000 []) demo_args
     = Inl (AttributeError ''object has no attribute get'')"
  by (simp add: main_fvcore_def main_thop_def main_with_def scenario_def load_config_def)


end
